theory Spec2Isabelle
  imports Complex_Main "HOL-Library.Multiset"
begin

section \<open>JavaScript numbers\<close>

text \<open>
  The evaluator computes with JavaScript numbers. Box coordinates and counts are finite;
  they are modelled as \<open>real\<close> and \<open>int\<close> with exact arithmetic (no rounding, no overflow,
  no signed zero). The one operation of the program that can leave the finite numbers is
  division: \<open>0 / 0\<close> is \<open>NaN\<close> and \<open>x / 0\<close> is an infinity. \<open>jsnum\<close> keeps those results
  apart from the finite ones; \<open>Inf True\<close> is \<open>+Infinity\<close>, \<open>Inf False\<close> is \<open>-Infinity\<close>.
\<close>

datatype jsnum = Num real | Inf bool | NaN

fun js_add :: "jsnum \<Rightarrow> jsnum \<Rightarrow> jsnum" where
  "js_add (Num a) (Num b) = Num (a + b)"
| "js_add (Num a) (Inf t) = Inf t"
| "js_add (Inf s) (Num b) = Inf s"
| "js_add (Inf s) (Inf t) = (if s = t then Inf s else NaN)"
| "js_add NaN y = NaN"
| "js_add x NaN = NaN"

fun js_mul :: "jsnum \<Rightarrow> jsnum \<Rightarrow> jsnum" where
  "js_mul (Num a) (Num b) = Num (a * b)"
| "js_mul (Num a) (Inf t) = (if a = 0 then NaN else Inf (t = (0 < a)))"
| "js_mul (Inf s) (Num b) = (if b = 0 then NaN else Inf (s = (0 < b)))"
| "js_mul (Inf s) (Inf t) = Inf (s = t)"
| "js_mul NaN y = NaN"
| "js_mul x NaN = NaN"

fun js_div :: "jsnum \<Rightarrow> jsnum \<Rightarrow> jsnum" where
  "js_div (Num a) (Num b) =
     (if b \<noteq> 0 then Num (a / b) else if a = 0 then NaN else Inf (0 < a))"
| "js_div (Num a) (Inf t) = Num 0"
| "js_div (Inf s) (Num b) = Inf (s = (0 \<le> b))"
| "js_div (Inf s) (Inf t) = NaN"
| "js_div NaN y = NaN"
| "js_div x NaN = NaN"

text \<open>Comparisons with \<open>NaN\<close> are false.\<close>

fun js_gt :: "jsnum \<Rightarrow> jsnum \<Rightarrow> bool" where
  "js_gt (Num a) (Num b) = (b < a)"
| "js_gt (Num a) (Inf t) = (\<not> t)"
| "js_gt (Inf s) (Num b) = s"
| "js_gt (Inf s) (Inf t) = (s \<and> \<not> t)"
| "js_gt NaN y = False"
| "js_gt x NaN = False"

fun js_ge :: "jsnum \<Rightarrow> jsnum \<Rightarrow> bool" where
  "js_ge (Num a) (Num b) = (b \<le> a)"
| "js_ge (Num a) (Inf t) = (\<not> t)"
| "js_ge (Inf s) (Num b) = s"
| "js_ge (Inf s) (Inf t) = (s \<or> \<not> t)"
| "js_ge NaN y = False"
| "js_ge x NaN = False"

text \<open>\<open>Math.round\<close>: the nearest integer, halves rounded up.\<close>

fun Math_round :: "jsnum \<Rightarrow> jsnum" where
  "Math_round (Num a) = Num (of_int \<lfloor>a + 1 / 2\<rfloor>)"
| "Math_round (Inf s) = Inf s"
| "Math_round NaN = NaN"

section \<open>Data model\<close>

type_synonym bbox = "real \<times> real \<times> real \<times> real"

text \<open>A label of a label-set document: \<open>{ tag, bbox: [x1, y1, x2, y2] }\<close>.\<close>

record label =
  tag :: string
  bbox :: bbox

text \<open>The interactive tool's \<open>BoundingBox\<close> carries an identifier besides.\<close>

record BoundingBox = label +
  box_id :: string

text \<open>A label-set document (ground truth or prediction).\<close>

record label_data =
  image_filename :: string
  labels :: "label list"

text \<open>The counts of one category, and the full metrics entry with its rates.\<close>

record tag_stats =
  true_positives :: int
  false_positives :: int
  false_negatives :: int
  ground_truth_count :: int
  predicted_count :: int

record tag_metrics = tag_stats +
  precision :: jsnum
  recall :: jsnum
  f1_score :: jsnum

text \<open>A JavaScript object keyed by category, in insertion order.\<close>

type_synonym metrics_obj = "(string \<times> tag_metrics) list"

section \<open>The batch evaluator, \<open>evaluate.mjs\<close>\<close>

definition UI_TAGS :: "string list" where
  "UI_TAGS = [''Button'', ''Input'', ''Radio'', ''Dropdown'']"

definition IOU_THRESHOLD :: jsnum where
  "IOU_THRESHOLD = Num (1 / 2)"

text \<open>
  \<open>calculateIoU\<close> in exact arithmetic: the script's result is this value up to the rounding
  of double precision, as long as the areas do not overflow.
\<close>

definition calculateIoU :: "bbox \<Rightarrow> bbox \<Rightarrow> jsnum" where
  "calculateIoU boxA boxB =
     (case boxA of (a0, a1, a2, a3) \<Rightarrow> case boxB of (b0, b1, b2, b3) \<Rightarrow>
        let xA = max a0 b0;
            yA = max a1 b1;
            xB = min a2 b2;
            yB = min a3 b3;
            interArea = max 0 (xB - xA) * max 0 (yB - yA);
            boxAArea = (a2 - a0) * (a3 - a1);
            boxBArea = (b2 - b0) * (b3 - b1);
            unionArea = boxAArea + boxBArea - interArea
        in if unionArea = 0 then Num 0 else js_div (Num interArea) (Num unionArea))"

text \<open>
  The matching loops use an IoU only through the comparisons \<open>iou > bestIoU\<close> and
  \<open>bestIoU >= IOU_THRESHOLD\<close>. They are modelled over an arbitrary function \<open>iou\<close> from two
  boxes to a JavaScript number, so that what is proved of them holds for the values the
  script's \<open>calculateIoU\<close> returns in double precision, whatever their rounding, as it
  does for the exact \<open>calculateIoU\<close> above.

  The body of \<open>predBoxes.forEach((predBox, i) => ...)\<close>: the state is
  \<open>(bestIoU, bestMatchIndex)\<close>, \<open>matched\<close> is \<open>matchedPredIndices\<close>.
\<close>

definition pred_step ::
  "(bbox \<Rightarrow> bbox \<Rightarrow> jsnum) \<Rightarrow> label \<Rightarrow> int set \<Rightarrow> jsnum \<times> int \<Rightarrow> int \<times> label
     \<Rightarrow> jsnum \<times> int" where
  "pred_step iou gtBox matched st ip =
     (case st of (bestIoU, bestMatchIndex) \<Rightarrow> case ip of (i, predBox) \<Rightarrow>
        if i \<in> matched then (bestIoU, bestMatchIndex)
        else let v = iou (bbox gtBox) (bbox predBox)
             in if js_gt v bestIoU then (v, i) else (bestIoU, bestMatchIndex))"

text \<open>A list with its indices, as \<open>forEach\<close> passes them.\<close>

definition indexed :: "'a list \<Rightarrow> (int \<times> 'a) list" where
  "indexed xs = zip (map int [0..<length xs]) xs"

definition best_match ::
  "(bbox \<Rightarrow> bbox \<Rightarrow> jsnum) \<Rightarrow> label \<Rightarrow> label list \<Rightarrow> int set \<Rightarrow> jsnum \<times> int" where
  "best_match iou gtBox predBoxes matched =
     fold (\<lambda>ip st. pred_step iou gtBox matched st ip) (indexed predBoxes) (Num 0, - 1)"

text \<open>
  The body of \<open>for (const gtBox of gtBoxes)\<close>: the state is
  \<open>(truePositives, matchedPredIndices)\<close>.
\<close>

definition gt_step ::
  "(bbox \<Rightarrow> bbox \<Rightarrow> jsnum) \<Rightarrow> label list \<Rightarrow> label \<Rightarrow> int \<times> int set \<Rightarrow> int \<times> int set" where
  "gt_step iou predBoxes gtBox st =
     (case st of (truePositives, matched) \<Rightarrow>
        case best_match iou gtBox predBoxes matched of (bestIoU, bestMatchIndex) \<Rightarrow>
          if js_ge bestIoU IOU_THRESHOLD
          then (truePositives + 1, insert bestMatchIndex matched)
          else (truePositives, matched))"

definition match_boxes ::
  "(bbox \<Rightarrow> bbox \<Rightarrow> jsnum) \<Rightarrow> label list \<Rightarrow> label list \<Rightarrow> int \<times> int set" where
  "match_boxes iou gtBoxes predBoxes = fold (gt_step iou predBoxes) gtBoxes (0, {})"

text \<open>The three rates, as the script computes them from the counts.\<close>

definition precision_of :: "int \<Rightarrow> int \<Rightarrow> jsnum" where
  "precision_of tp fp =
     (if tp + fp > 0 then js_div (Num (of_int tp)) (Num (of_int (tp + fp))) else Num 0)"

definition recall_of :: "int \<Rightarrow> int \<Rightarrow> jsnum" where
  "recall_of tp fn =
     (if tp + fn > 0 then js_div (Num (of_int tp)) (Num (of_int (tp + fn))) else Num 0)"

definition f1_of :: "jsnum \<Rightarrow> jsnum \<Rightarrow> jsnum" where
  "f1_of p r =
     (if js_gt (js_add p r) (Num 0)
      then js_div (js_mul (Num 2) (js_mul p r)) (js_add p r) else Num 0)"

text \<open>
  One iteration of \<open>for (const tag of UI_TAGS)\<close> in \<open>evaluateSingleFile\<close>, and the function
  itself, over the IoU function.
\<close>

definition evaluate_tag_with ::
  "(bbox \<Rightarrow> bbox \<Rightarrow> jsnum) \<Rightarrow> label_data \<Rightarrow> label_data \<Rightarrow> string \<Rightarrow> tag_metrics" where
  "evaluate_tag_with iou gtData predData t =
     (let gtBoxes = filter (\<lambda>l. tag l = t) (labels gtData);
          predBoxes = filter (\<lambda>l. tag l = t) (labels predData);
          truePositives = fst (match_boxes iou gtBoxes predBoxes);
          falsePositives = int (length predBoxes) - truePositives;
          falseNegatives = int (length gtBoxes) - truePositives;
          p = precision_of truePositives falsePositives;
          r = recall_of truePositives falseNegatives;
          f1Score = f1_of p r
      in \<lparr> true_positives = truePositives,
           false_positives = falsePositives,
           false_negatives = falseNegatives,
           ground_truth_count = int (length gtBoxes),
           predicted_count = int (length predBoxes),
           precision = p,
           recall = r,
           f1_score = f1Score \<rparr>)"

definition evaluateSingleFile_with ::
  "(bbox \<Rightarrow> bbox \<Rightarrow> jsnum) \<Rightarrow> label_data \<Rightarrow> label_data \<Rightarrow> metrics_obj" where
  "evaluateSingleFile_with iou gtData predData =
     map (\<lambda>t. (t, evaluate_tag_with iou gtData predData t)) UI_TAGS"

text \<open>With the exact \<open>calculateIoU\<close>.\<close>

definition evaluate_tag :: "label_data \<Rightarrow> label_data \<Rightarrow> string \<Rightarrow> tag_metrics" where
  "evaluate_tag = evaluate_tag_with calculateIoU"

definition evaluateSingleFile :: "label_data \<Rightarrow> label_data \<Rightarrow> metrics_obj" where
  "evaluateSingleFile = evaluateSingleFile_with calculateIoU"


subsection \<open>Aggregation\<close>

definition zero_stats :: tag_stats where
  "zero_stats = \<lparr> true_positives = 0, false_positives = 0, false_negatives = 0,
                  ground_truth_count = 0, predicted_count = 0 \<rparr>"

text \<open>The five \<open>+=\<close> statements, used for the per-category sums and for the overall sum.\<close>

definition add_stats :: "tag_stats \<Rightarrow> tag_metrics \<Rightarrow> tag_stats" where
  "add_stats acc stats =
     \<lparr> true_positives = true_positives acc + true_positives stats,
       false_positives = false_positives acc + false_positives stats,
       false_negatives = false_negatives acc + false_negatives stats,
       ground_truth_count = ground_truth_count acc + ground_truth_count stats,
       predicted_count = predicted_count acc + predicted_count stats \<rparr>"

text \<open>The body of \<open>for (const fileMetrics of allMetrics)\<close>, guarded by \<open>if (fileMetrics[tag])\<close>.\<close>

definition add_file :: "string \<Rightarrow> metrics_obj \<Rightarrow> tag_stats \<Rightarrow> tag_stats" where
  "add_file t fileMetrics tagStats =
     (case map_of fileMetrics t of None \<Rightarrow> tagStats | Some m \<Rightarrow> add_stats tagStats m)"

text \<open>\<open>{ ...stats, precision, recall, f1_score }\<close> with the rates computed from the counts.\<close>

definition with_rates :: "tag_stats \<Rightarrow> tag_metrics" where
  "with_rates s =
     (let p = precision_of (true_positives s) (false_positives s);
          r = recall_of (true_positives s) (false_negatives s);
          f1Score = f1_of p r
      in \<lparr> true_positives = true_positives s,
           false_positives = false_positives s,
           false_negatives = false_negatives s,
           ground_truth_count = ground_truth_count s,
           predicted_count = predicted_count s,
           precision = p,
           recall = r,
           f1_score = f1Score \<rparr>)"

definition aggregate_tag :: "metrics_obj list \<Rightarrow> string \<Rightarrow> tag_metrics" where
  "aggregate_tag allMetrics t = with_rates (fold (add_file t) allMetrics zero_stats)"

text \<open>
  \<open>Object.values(finalReport).reduce(...)\<close> runs over the entries in insertion order,
  before the \<open>Overall\<close> entry is added.
\<close>

definition aggregateResults :: "metrics_obj list \<Rightarrow> metrics_obj" where
  "aggregateResults allMetrics =
     (let finalReport = map (\<lambda>t. (t, aggregate_tag allMetrics t)) UI_TAGS;
          overall = fold (\<lambda>stats acc. add_stats acc stats) (map snd finalReport) zero_stats
      in finalReport @ [(''Overall'', with_rates overall)])"

section \<open>The interactive export, \<open>DataExport.tsx\<close>\<close>

text \<open>The export's own IoU: the same areas, the quotient returned without a guard.\<close>

definition calculateIoU_tsx :: "bbox \<Rightarrow> bbox \<Rightarrow> jsnum" where
  "calculateIoU_tsx boxA boxB =
     (case boxA of (a0, a1, a2, a3) \<Rightarrow> case boxB of (b0, b1, b2, b3) \<Rightarrow>
        let xA = max a0 b0;
            yA = max a1 b1;
            xB = min a2 b2;
            yB = min a3 b3;
            interArea = max 0 (xB - xA) * max 0 (yB - yA);
            boxAArea = (a2 - a0) * (a3 - a1);
            boxBArea = (b2 - b0) * (b3 - b1)
        in js_div (Num interArea) (Num (boxAArea + boxBArea - interArea)))"

definition iouThreshold :: jsnum where
  "iouThreshold = Num (1 / 2)"

text \<open>
  The body of \<open>gtBoxes.forEach(gtBox => ...)\<close>: the state is \<open>(bestIoU, bestMatch)\<close>.
\<close>

definition tsx_gt_step ::
  "BoundingBox \<Rightarrow> string set \<Rightarrow> jsnum \<times> BoundingBox option \<Rightarrow> BoundingBox
     \<Rightarrow> jsnum \<times> BoundingBox option" where
  "tsx_gt_step predBox matchedGT st gtBox =
     (case st of (bestIoU, bestMatch) \<Rightarrow>
        if box_id gtBox \<in> matchedGT then (bestIoU, bestMatch)
        else let iou = calculateIoU_tsx (bbox predBox) (bbox gtBox)
             in if js_gt iou bestIoU \<and> js_ge iou iouThreshold then (iou, Some gtBox)
                else (bestIoU, bestMatch))"

text \<open>
  The body of \<open>predBoxes.forEach(predBox => ...)\<close>: the state is
  \<open>(truePositives, matchedGT, matchedPred)\<close>.
\<close>

definition tsx_pred_step ::
  "BoundingBox list \<Rightarrow> BoundingBox \<Rightarrow> int \<times> string set \<times> string set
     \<Rightarrow> int \<times> string set \<times> string set" where
  "tsx_pred_step gtBoxes predBox st =
     (case st of (truePositives, matchedGT, matchedPred) \<Rightarrow>
        case fold (\<lambda>g s. tsx_gt_step predBox matchedGT s g) gtBoxes (Num 0, None) of
          (bestIoU, bestMatch) \<Rightarrow>
            (case bestMatch of
               None \<Rightarrow> (truePositives, matchedGT, matchedPred)
             | Some g \<Rightarrow> (truePositives + 1, insert (box_id g) matchedGT,
                          insert (box_id predBox) matchedPred)))"

definition tsx_match :: "BoundingBox list \<Rightarrow> BoundingBox list \<Rightarrow> int \<times> string set \<times> string set" where
  "tsx_match gtBoxes predBoxes = fold (tsx_pred_step gtBoxes) predBoxes (0, {}, {})"

text \<open>The rates of the export, and the rounding applied when an entry is stored.\<close>

definition tsx_precision :: "int \<Rightarrow> int \<Rightarrow> jsnum" where
  "tsx_precision tp fp =
     (if tp > 0 then js_div (Num (of_int tp)) (Num (of_int (tp + fp))) else Num 0)"

definition tsx_recall :: "int \<Rightarrow> int \<Rightarrow> jsnum" where
  "tsx_recall tp fn =
     (if tp > 0 then js_div (Num (of_int tp)) (Num (of_int (tp + fn))) else Num 0)"

definition tsx_f1 :: "jsnum \<Rightarrow> jsnum \<Rightarrow> jsnum" where
  "tsx_f1 p r =
     (if js_gt (js_add p r) (Num 0)
      then js_div (js_mul (js_mul (Num 2) p) r) (js_add p r) else Num 0)"

text \<open>
  \<open>Math.round(x * 1000) / 1000\<close> in exact arithmetic. The script rounds the double it
  has computed, which at a tie can lie on the other side, so nothing below depends on the
  side: only the distance between a stored rate and the computed one is used.
\<close>

definition round3 :: "jsnum \<Rightarrow> jsnum" where
  "round3 x = js_div (Math_round (js_mul x (Num 1000))) (Num 1000)"

text \<open>The counts of one category.\<close>

definition tsx_counts :: "BoundingBox list \<Rightarrow> BoundingBox list \<Rightarrow> string \<Rightarrow> tag_stats" where
  "tsx_counts manualLabels predictedLabels t =
     (let gtBoxes = filter (\<lambda>l. tag l = t) manualLabels;
          predBoxes = filter (\<lambda>l. tag l = t) predictedLabels;
          truePositives = fst (tsx_match gtBoxes predBoxes)
      in \<lparr> true_positives = truePositives,
           false_positives = int (length predBoxes) - truePositives,
           false_negatives = int (length gtBoxes) - truePositives,
           ground_truth_count = int (length gtBoxes),
           predicted_count = int (length predBoxes) \<rparr>)"

text \<open>The rates as computed from the counts, before rounding.\<close>

definition tsx_rates :: "tag_stats \<Rightarrow> tag_metrics" where
  "tsx_rates c =
     (let p = tsx_precision (true_positives c) (false_positives c);
          r = tsx_recall (true_positives c) (false_negatives c);
          f1Score = tsx_f1 p r
      in \<lparr> true_positives = true_positives c,
           false_positives = false_positives c,
           false_negatives = false_negatives c,
           ground_truth_count = ground_truth_count c,
           predicted_count = predicted_count c,
           precision = p,
           recall = r,
           f1_score = f1Score \<rparr>)"

text \<open>
  An entry as it is stored in \<open>evaluation.summary\<close>: each rate is replaced by
  \<open>Math.round(rate * 1000) / 1000\<close>.
\<close>

definition store_rounded :: "tag_metrics \<Rightarrow> tag_metrics" where
  "store_rounded m =
     m\<lparr> precision := round3 (precision m),
        recall := round3 (recall m),
        f1_score := round3 (f1_score m) \<rparr>"

definition tsx_tag :: "BoundingBox list \<Rightarrow> BoundingBox list \<Rightarrow> string \<Rightarrow> tag_metrics" where
  "tsx_tag manualLabels predictedLabels t =
     store_rounded (tsx_rates (tsx_counts manualLabels predictedLabels t))"

text \<open>
  The counts of the \<open>overall\<close> entry: true positives, false positives and false negatives
  summed over the per-category entries, the two totals taken from the lengths of the label
  lists.
\<close>

definition tsx_overall_counts ::
  "BoundingBox list \<Rightarrow> BoundingBox list \<Rightarrow> tag_metrics list \<Rightarrow> tag_stats" where
  "tsx_overall_counts manualLabels predictedLabels tagMetrics =
     (let totalGT = int (length manualLabels);
          totalPred = int (length predictedLabels);
          totalTP = fold (\<lambda>metrics sum. sum + true_positives metrics) tagMetrics 0;
          totalFP = fold (\<lambda>metrics sum. sum + false_positives metrics) tagMetrics 0;
          totalFN = fold (\<lambda>metrics sum. sum + false_negatives metrics) tagMetrics 0
      in \<lparr> true_positives = totalTP,
           false_positives = totalFP,
           false_negatives = totalFN,
           ground_truth_count = totalGT,
           predicted_count = totalPred \<rparr>)"

text \<open>
  \<open>generateEvaluation\<close> returns early, with no report, when either label list is empty.
  The result is the \<open>summary\<close> object of the report: the four categories, then \<open>overall\<close>,
  whose rates are computed from its counts in the same way and stored rounded.
\<close>

definition generateEvaluation :: "BoundingBox list \<Rightarrow> BoundingBox list \<Rightarrow> metrics_obj option" where
  "generateEvaluation manualLabels predictedLabels =
     (if manualLabels = [] \<or> predictedLabels = [] then None
      else
        let summary = map (\<lambda>t. (t, tsx_tag manualLabels predictedLabels t))
                          [''Button'', ''Input'', ''Radio'', ''Dropdown''];
            tagMetrics = map snd summary
        in Some (summary @
              [(''overall'',
                store_rounded
                  (tsx_rates (tsx_overall_counts manualLabels predictedLabels tagMetrics)))]))"

text \<open>\<open>exportGroundTruth\<close> and \<open>exportPredictions\<close> write each label as \<open>{ tag, bbox }\<close>.\<close>

definition export_labels :: "BoundingBox list \<Rightarrow> label list" where
  "export_labels ls = map (\<lambda>l. \<lparr> tag = tag l, bbox = bbox l \<rparr>) ls"


section \<open>The batch driver, \<open>main\<close> of \<open>evaluate.mjs\<close>\<close>

text \<open>An exception as the driver inspects it: \<open>err.code\<close> and \<open>err.message\<close>.\<close>

datatype js_error = JsError (err_code: "string option") (err_message: string)

text \<open>
  The functions of the Node.js runtime that \<open>main\<close> calls are parameters of the model.
  \<open>readdir\<close> and \<open>readFile\<close> return the file names or the content, or the error they
  throw. \<open>JSON_parse\<close> returns the parsed label-set document, or the message of the
  \<open>SyntaxError\<close> it throws (an error without a \<open>code\<close>); documents are typed, so a
  document that parses is a well-formed label set.
\<close>

record node_env =
  readdir :: "string \<Rightarrow> js_error + string list"
  readFile :: "string \<Rightarrow> js_error + string"
  JSON_parse :: "string \<Rightarrow> string + label_data"
  path_join :: "string \<Rightarrow> string \<Rightarrow> string"
  path_extname :: "string \<Rightarrow> string"

text \<open>
  What the run writes. A console call with one argument prints that string.
  \<open>console.error\<close> with two arguments formats the first with the second, so that call is
  kept as its two arguments, \<open>ConsoleErrorWith\<close>, and not as a printed line. The table
  printed by \<open>printReport\<close> is kept as the report itself.
\<close>

datatype console_output =
    ConsoleError string
  | ConsoleErrorWith string string
  | ConsoleWarn string
  | ConsoleLog string
  | PrintReport metrics_obj

text \<open>The body of the inner \<open>try\<close>: the first exception ends it.\<close>

definition process_pair ::
  "(bbox \<Rightarrow> bbox \<Rightarrow> jsnum) \<Rightarrow> node_env \<Rightarrow> string \<Rightarrow> string \<Rightarrow> string
     \<Rightarrow> js_error + metrics_obj" where
  "process_pair iou env gtFolder predFolder file =
     (let gtPath = path_join env gtFolder file;
          predPath = path_join env predFolder file
      in case readFile env gtPath of
           Inl err \<Rightarrow> Inl err
         | Inr gtContent \<Rightarrow>
             (case readFile env predPath of
                Inl err \<Rightarrow> Inl err
              | Inr predContent \<Rightarrow>
                  (case JSON_parse env gtContent of
                     Inl msg \<Rightarrow> Inl (JsError None msg)
                   | Inr gtData \<Rightarrow>
                       (case JSON_parse env predContent of
                          Inl msg \<Rightarrow> Inl (JsError None msg)
                        | Inr predData \<Rightarrow>
                            Inr (evaluateSingleFile_with iou gtData predData)))))"

text \<open>The body of \<open>for (const file of gtFiles)\<close>: the state is \<open>allMetrics\<close> and the output.\<close>

definition file_step ::
  "(bbox \<Rightarrow> bbox \<Rightarrow> jsnum) \<Rightarrow> node_env \<Rightarrow> string \<Rightarrow> string \<Rightarrow> string
     \<Rightarrow> metrics_obj list \<times> console_output list
     \<Rightarrow> metrics_obj list \<times> console_output list" where
  "file_step iou env gtFolder predFolder file st =
     (case st of (allMetrics, out) \<Rightarrow>
        if path_extname env file \<noteq> ''.json'' then (allMetrics, out)
        else (case process_pair iou env gtFolder predFolder file of
                Inr fileMetrics \<Rightarrow> (allMetrics @ [fileMetrics], out)
              | Inl err \<Rightarrow>
                  (if err_code err = Some ''ENOENT''
                   then (allMetrics,
                         out @ [ConsoleWarn (''Warning: Prediction file not found for '' @ file
                                             @ ''. Skipping.'')])
                   else (allMetrics,
                         out @ [ConsoleErrorWith (''Error processing file '' @ file @ '':'')
                                                 (err_message err)]))))"

text \<open>
  \<open>main\<close> returns what was written and the exit code of the process. Like the matcher it
  is modelled over the IoU function that \<open>evaluateSingleFile\<close> uses.
\<close>

definition main_with ::
  "(bbox \<Rightarrow> bbox \<Rightarrow> jsnum) \<Rightarrow> node_env \<Rightarrow> string list \<Rightarrow> console_output list \<times> int" where
  "main_with iou env args =
     (if length args \<noteq> 2
      then ([ConsoleError
               ''Usage: node evaluate.mjs <ground_truth_folder> <predictions_folder>''], 1)
      else
        let gtFolder = args ! 0; predFolder = args ! 1
        in case readdir env gtFolder of
             Inl error \<Rightarrow>
               ([ConsoleError (''Failed to read directories: '' @ err_message error)], 1)
           | Inr gtFiles \<Rightarrow>
               (case fold (file_step iou env gtFolder predFolder) gtFiles ([], []) of
                  (allMetrics, out) \<Rightarrow>
                    if length allMetrics = 0
                    then (out @ [ConsoleLog ''No matching file pairs found to evaluate.''], 0)
                    else (out @ [PrintReport (aggregateResults allMetrics)], 0)))"

text \<open>With the exact \<open>calculateIoU\<close>.\<close>

definition main :: "node_env \<Rightarrow> string list \<Rightarrow> console_output list \<times> int" where
  "main = main_with calculateIoU"


section \<open>The specification's reference matcher\<close>

text \<open>
  The reference assignment in the words of the specification, over the same IoU function.
  One ground-truth box against the predicted boxes that are not yet matched, in list order:
  the best IoU so far starts at \<open>0\<close> with no candidate, and a candidate becomes the best
  only when its IoU is strictly greater than the best so far, so the earliest of equally
  good candidates is kept.
\<close>

fun ref_scan ::
  "(bbox \<Rightarrow> bbox \<Rightarrow> jsnum) \<Rightarrow> label \<Rightarrow> jsnum \<times> int option \<Rightarrow> (int \<times> label) list
     \<Rightarrow> jsnum \<times> int option" where
  "ref_scan iou g best [] = best"
| "ref_scan iou g (w, c) ((i, p) # cs) =
     ref_scan iou g (if js_gt (iou (bbox g) (bbox p)) w then (iou (bbox g) (bbox p), Some i)
                     else (w, c)) cs"

text \<open>
  The ground-truth boxes in list order: a box whose best candidate reaches \<open>0.5\<close> is a
  true positive and that candidate leaves the unmatched ones; otherwise the box stays
  unmatched. The result is the number of true positives.
\<close>

fun ref_match ::
  "(bbox \<Rightarrow> bbox \<Rightarrow> jsnum) \<Rightarrow> label list \<Rightarrow> (int \<times> label) list \<Rightarrow> nat" where
  "ref_match iou [] unmatched = 0"
| "ref_match iou (g # gs) unmatched =
     (case ref_scan iou g (Num 0, None) unmatched of
        (w, None) \<Rightarrow> ref_match iou gs unmatched
      | (w, Some j) \<Rightarrow>
          if js_ge w (Num (1 / 2))
          then Suc (ref_match iou gs (filter (\<lambda>(i, p). i \<noteq> j) unmatched))
          else ref_match iou gs unmatched)"

definition ref_true_positives ::
  "(bbox \<Rightarrow> bbox \<Rightarrow> jsnum) \<Rightarrow> label list \<Rightarrow> label list \<Rightarrow> string \<Rightarrow> nat" where
  "ref_true_positives iou gt pred t =
     ref_match iou (filter (\<lambda>l. tag l = t) gt) (indexed (filter (\<lambda>l. tag l = t) pred))"

text \<open>
  How the state of the script's scan corresponds to the reference's: the same best IoU,
  which is still \<open>0\<close> while the reference has no candidate, and the same index once it
  has one.
\<close>

definition scan_rel :: "jsnum \<times> int \<Rightarrow> jsnum \<times> int option \<Rightarrow> bool" where
  "scan_rel st best =
     (case st of (x, k) \<Rightarrow> case best of (w, c) \<Rightarrow>
        x = w \<and> (case c of None \<Rightarrow> x = Num 0 | Some j \<Rightarrow> k = j))"

section \<open>Predicates of the specification\<close>

text \<open>The invariant of a match outcome.\<close>

definition outcome_ok :: "tag_metrics \<Rightarrow> bool" where
  "outcome_ok m \<longleftrightarrow>
     ground_truth_count m = true_positives m + false_negatives m \<and>
     predicted_count m = true_positives m + false_positives m \<and>
     true_positives m \<le> min (ground_truth_count m) (predicted_count m) \<and>
     0 \<le> true_positives m \<and> 0 \<le> false_positives m \<and> 0 \<le> false_negatives m"

text \<open>
  The three rates as the specification defines them from the counts. Each rate is a finite
  number: no division by zero has produced it.
\<close>

definition rates_ok :: "tag_metrics \<Rightarrow> bool" where
  "rates_ok m \<longleftrightarrow>
     (let tp = real_of_int (true_positives m);
          fp = real_of_int (false_positives m);
          fn = real_of_int (false_negatives m);
          p = (if tp + fp > 0 then tp / (tp + fp) else 0);
          r = (if tp + fn > 0 then tp / (tp + fn) else 0)
      in precision m = Num p \<and> recall m = Num r \<and>
         f1_score m = Num (if p + r > 0 then 2 * p * r / (p + r) else 0))"

text \<open>
  A stored entry of the export against the entry computed from the counts: the same true
  positives, false positives and false negatives, and each stored rate a finite number
  less than \<open>0.001\<close> away from the computed one.
\<close>

fun rate_near :: "jsnum \<Rightarrow> jsnum \<Rightarrow> bool" where
  "rate_near (Num a) (Num b) = (\<bar>b - a\<bar> < 1 / 1000)"
| "rate_near x y = False"

definition stored_from :: "tag_metrics \<Rightarrow> tag_metrics \<Rightarrow> bool" where
  "stored_from m0 m \<longleftrightarrow>
     true_positives m = true_positives m0 \<and>
     false_positives m = false_positives m0 \<and>
     false_negatives m = false_negatives m0 \<and>
     rate_near (precision m0) (precision m) \<and>
     rate_near (recall m0) (recall m) \<and>
     rate_near (f1_score m0) (f1_score m)"

text \<open>The sums of the counts of a list of entries.\<close>

definition sum_stats :: "tag_metrics list \<Rightarrow> tag_stats" where
  "sum_stats ms =
     \<lparr> true_positives = sum_list (map true_positives ms),
       false_positives = sum_list (map false_positives ms),
       false_negatives = sum_list (map false_negatives ms),
       ground_truth_count = sum_list (map ground_truth_count ms),
       predicted_count = sum_list (map predicted_count ms) \<rparr>"

text \<open>The invariant of the export's matching loop: every true positive claimed its own
  ground-truth identifier.\<close>

definition tsx_inv :: "BoundingBox list \<Rightarrow> int \<times> string set \<times> string set \<Rightarrow> bool" where
  "tsx_inv gtBoxes st =
     (case st of (tp, mg, mp) \<Rightarrow>
        finite mg \<and> mg \<subseteq> box_id ` set gtBoxes \<and> tp = int (card mg))"

text \<open>
  A pair is successfully loaded when the file has the \<open>.json\<close> extension and both documents
  are read and parsed.
\<close>

definition load_doc :: "node_env \<Rightarrow> string \<Rightarrow> label_data option" where
  "load_doc env path =
     (case readFile env path of
        Inl err \<Rightarrow> None
      | Inr content \<Rightarrow> (case JSON_parse env content of Inl msg \<Rightarrow> None | Inr d \<Rightarrow> Some d))"

definition loaded_pair ::
  "node_env \<Rightarrow> string \<Rightarrow> string \<Rightarrow> string \<Rightarrow> (label_data \<times> label_data) option" where
  "loaded_pair env gtFolder predFolder file =
     (if path_extname env file = ''.json''
      then (case load_doc env (path_join env gtFolder file) of
              None \<Rightarrow> None
            | Some gtData \<Rightarrow>
                (case load_doc env (path_join env predFolder file) of
                   None \<Rightarrow> None
                 | Some predData \<Rightarrow> Some (gtData, predData)))
      else None)"

definition loaded_metrics_with ::
  "(bbox \<Rightarrow> bbox \<Rightarrow> jsnum) \<Rightarrow> node_env \<Rightarrow> string \<Rightarrow> string \<Rightarrow> string list
     \<Rightarrow> metrics_obj list" where
  "loaded_metrics_with iou env gtFolder predFolder files =
     map (\<lambda>(gtData, predData). evaluateSingleFile_with iou gtData predData)
         (List.map_filter (loaded_pair env gtFolder predFolder) files)"

definition loaded_metrics :: "node_env \<Rightarrow> string \<Rightarrow> string \<Rightarrow> string list \<Rightarrow> metrics_obj list" where
  "loaded_metrics = loaded_metrics_with calculateIoU"

text \<open>What the driver writes for one file that it skips.\<close>

definition skip_output ::
  "(bbox \<Rightarrow> bbox \<Rightarrow> jsnum) \<Rightarrow> node_env \<Rightarrow> string \<Rightarrow> string \<Rightarrow> string
     \<Rightarrow> console_output list" where
  "skip_output iou env gtFolder predFolder file =
     (if path_extname env file = ''.json''
      then (case process_pair iou env gtFolder predFolder file of
              Inr fileMetrics \<Rightarrow> []
            | Inl err \<Rightarrow>
                [if err_code err = Some ''ENOENT''
                 then ConsoleWarn (''Warning: Prediction file not found for '' @ file
                                   @ ''. Skipping.'')
                 else ConsoleErrorWith (''Error processing file '' @ file @ '':'')
                                       (err_message err)])
      else [])"

fun is_report :: "console_output \<Rightarrow> bool" where
  "is_report (PrintReport r) = True"
| "is_report e = False"

section \<open>Example inputs\<close>

text \<open>Two ground-truth buttons and two predicted buttons on one row, as label-set
  documents and as the labels of the interactive tool.\<close>

definition ex_gt :: label_data where
  "ex_gt = \<lparr> image_filename = ''screen.png'',
             labels = [\<lparr> tag = ''Button'', bbox = (0, 0, 10, 1) \<rparr>,
                       \<lparr> tag = ''Button'', bbox = (3, 0, 9, 1) \<rparr>] \<rparr>"

definition ex_pred :: label_data where
  "ex_pred = \<lparr> image_filename = ''screen.png'',
               labels = [\<lparr> tag = ''Button'', bbox = (0, 0, 6, 1) \<rparr>,
                         \<lparr> tag = ''Button'', bbox = (0, 0, 9, 1) \<rparr>] \<rparr>"

text \<open>An IoU function whose every value is the double next below the threshold.\<close>

definition ex_iou_below :: "bbox \<Rightarrow> bbox \<Rightarrow> jsnum" where
  "ex_iou_below a b = Num (1 / 2 - 1 / 2 ^ 54)"

definition ex_manual :: "BoundingBox list" where
  "ex_manual = [\<lparr> tag = ''Button'', bbox = (0, 0, 10, 1), box_id = ''manual-1'' \<rparr>,
                \<lparr> tag = ''Button'', bbox = (3, 0, 9, 1), box_id = ''manual-2'' \<rparr>]"

definition ex_predicted :: "BoundingBox list" where
  "ex_predicted = [\<lparr> tag = ''Button'', bbox = (0, 0, 6, 1), box_id = ''predicted-1-0'' \<rparr>,
                   \<lparr> tag = ''Button'', bbox = (0, 0, 9, 1), box_id = ''predicted-1-1'' \<rparr>]"

text \<open>Predictions with a tag outside the four categories, a ground truth with such
  labels added, and an empty document.\<close>

definition ex_stray :: "BoundingBox list" where
  "ex_stray = [\<lparr> tag = ''Button'', bbox = (0, 0, 9, 1), box_id = ''predicted-2-0'' \<rparr>,
               \<lparr> tag = ''Checkbox'', bbox = (0, 5, 9, 6), box_id = ''predicted-2-1'' \<rparr>]"

definition ex_one_manual :: "BoundingBox list" where
  "ex_one_manual = [\<lparr> tag = ''Button'', bbox = (0, 0, 10, 1), box_id = ''manual-1'' \<rparr>]"

text \<open>One drawn button and three predicted buttons, the first of which matches it.\<close>

definition ex_square :: "BoundingBox list" where
  "ex_square = [\<lparr> tag = ''Button'', bbox = (0, 0, 20, 20), box_id = ''manual-1'' \<rparr>]"

definition ex_three :: "BoundingBox list" where
  "ex_three = [\<lparr> tag = ''Button'', bbox = (0, 0, 20, 20), box_id = ''predicted-3-0'' \<rparr>,
               \<lparr> tag = ''Button'', bbox = (100, 100, 120, 120), box_id = ''predicted-3-1'' \<rparr>,
               \<lparr> tag = ''Button'', bbox = (200, 200, 220, 220), box_id = ''predicted-3-2'' \<rparr>]"

definition ex_gt_extra :: label_data where
  "ex_gt_extra = \<lparr> image_filename = ''other.png'',
                   labels = [\<lparr> tag = ''Link'', bbox = (0, 0, 10, 1) \<rparr>,
                             \<lparr> tag = ''Button'', bbox = (0, 0, 10, 1) \<rparr>,
                             \<lparr> tag = ''Button'', bbox = (3, 0, 9, 1) \<rparr>,
                             \<lparr> tag = ''button'', bbox = (0, 0, 9, 1) \<rparr>] \<rparr>"

definition ex_empty :: label_data where
  "ex_empty = \<lparr> image_filename = ''blank.png'', labels = [] \<rparr>"

text \<open>A small file system: \<open>a.json\<close> is present and well formed on both sides, \<open>b.json\<close>
  has no prediction, the prediction of \<open>c.json\<close> does not parse, \<open>notes.txt\<close> is no document.\<close>

definition ex_env :: node_env where
  "ex_env =
     \<lparr> readdir = (\<lambda>d. if d = ''gt'' then Inr [''a.json'', ''b.json'', ''c.json'', ''notes.txt'']
                       else Inl (JsError (Some ''ENOENT'') ''no such file or directory'')),
       readFile = (\<lambda>p. if p = ''gt/a.json'' then Inr ''A''
                        else if p = ''pred/a.json'' then Inr ''PA''
                        else if p = ''gt/b.json'' then Inr ''B''
                        else if p = ''gt/c.json'' then Inr ''C''
                        else if p = ''pred/c.json'' then Inr ''{''
                        else Inl (JsError (Some ''ENOENT'') ''no such file or directory'')),
       JSON_parse = (\<lambda>s. if s = ''A'' \<or> s = ''C'' then Inr ex_gt
                          else if s = ''PA'' then Inr ex_pred
                          else Inl ''Unexpected end of JSON input''),
       path_join = (\<lambda>d f. d @ ''/'' @ f),
       path_extname = (\<lambda>f. dropWhile (\<lambda>c. c \<noteq> CHR ''.'') f) \<rparr>"

text \<open>
  A file system in which the ground truth \<open>x.json\<close> exists but cannot be read, and has no
  prediction.
\<close>

definition ex_env_denied :: node_env where
  "ex_env_denied =
     \<lparr> readdir = (\<lambda>d. if d = ''gt'' then Inr [''x.json'']
                       else Inl (JsError (Some ''ENOENT'') ''no such file or directory'')),
       readFile = (\<lambda>p. if p = ''gt/x.json''
                        then Inl (JsError (Some ''EACCES'') ''permission denied'')
                        else Inl (JsError (Some ''ENOENT'') ''no such file or directory'')),
       JSON_parse = (\<lambda>s. Inl ''Unexpected end of JSON input''),
       path_join = (\<lambda>d f. d @ ''/'' @ f),
       path_extname = (\<lambda>f. dropWhile (\<lambda>c. c \<noteq> CHR ''.'') f) \<rparr>"

section \<open>The overlap ratio\<close>

lemma inter_le_area:
  fixes a0 a2 b0 b2 a1 a3 b1 b3 :: real
  assumes "0 < max 0 (min a2 b2 - max a0 b0) * max 0 (min a3 b3 - max a1 b1)"
  shows "max 0 (min a2 b2 - max a0 b0) * max 0 (min a3 b3 - max a1 b1) \<le> (a2 - a0) * (a3 - a1)"
    and "max 0 (min a2 b2 - max a0 b0) * max 0 (min a3 b3 - max a1 b1) \<le> (b2 - b0) * (b3 - b1)"
proof -
  let ?w = "max 0 (min a2 b2 - max a0 b0)" and ?h = "max 0 (min a3 b3 - max a1 b1)"
  have w0: "0 \<le> ?w" and h0: "0 \<le> ?h" by simp_all
  from assms have "?w \<noteq> 0" "?h \<noteq> 0" by auto
  with w0 h0 have wp: "0 < ?w" and hp: "0 < ?h" by linarith+
  have wa: "?w \<le> a2 - a0" and wb: "?w \<le> b2 - b0" using wp by (auto simp: max_def min_def split: if_splits)
  have ha: "?h \<le> a3 - a1" and hb: "?h \<le> b3 - b1" using hp by (auto simp: max_def min_def split: if_splits)
  show "?w * ?h \<le> (a2 - a0) * (a3 - a1)" using wa ha w0 h0 by (intro mult_mono) linarith+
  show "?w * ?h \<le> (b2 - b0) * (b3 - b1)" using wb hb w0 h0 by (intro mult_mono) linarith+
qed

lemma calculateIoU_range:
  "\<exists>r. calculateIoU boxA boxB = Num r \<and> 0 \<le> r \<and> r \<le> 1"
proof -
  obtain a0 a1 a2 a3 where A: "boxA = (a0, a1, a2, a3)" by (cases boxA) auto
  obtain b0 b1 b2 b3 where B: "boxB = (b0, b1, b2, b3)" by (cases boxB) auto
  define i where "i = max 0 (min a2 b2 - max a0 b0) * max 0 (min a3 b3 - max a1 b1)"
  define u where "u = (a2 - a0) * (a3 - a1) + (b2 - b0) * (b3 - b1) - i"
  have i0: "0 \<le> i" unfolding i_def by simp
  have eq: "calculateIoU boxA boxB = (if u = 0 then Num 0 else Num (i / u))"
    unfolding calculateIoU_def A B Let_def u_def i_def by simp
  show ?thesis
  proof (cases "i = 0")
    case True
    then show ?thesis unfolding eq by simp
  next
    case False
    with i0 have ip: "0 < i" by linarith
    from inter_le_area[of a2 b2 a0 b0 a3 b3 a1 b1] ip have "i \<le> u"
      unfolding u_def i_def by linarith
    with ip have "0 \<le> i / u \<and> i / u \<le> 1 \<and> u \<noteq> 0" by auto
    then show ?thesis unfolding eq by auto
  qed
qed

text \<open>On a zero union area the batch script returns \<open>0\<close>; the export returns \<open>NaN\<close>.\<close>

lemma calculateIoU_zero_union:
  assumes "(a2 - a0) * (a3 - a1) + (b2 - b0) * (b3 - b1)
             - max 0 (min a2 b2 - max a0 b0) * max 0 (min a3 b3 - max a1 b1) = 0"
  shows "calculateIoU (a0, a1, a2, a3) (b0, b1, b2, b3) = Num 0"
proof -
  define i where "i = max 0 (min a2 b2 - max a0 b0) * max 0 (min a3 b3 - max a1 b1)"
  define u where "u = (a2 - a0) * (a3 - a1) + (b2 - b0) * (b3 - b1) - i"
  have eq: "calculateIoU (a0, a1, a2, a3) (b0, b1, b2, b3) =
              (if u = 0 then Num 0 else js_div (Num i) (Num u))"
    unfolding calculateIoU_def Let_def u_def i_def by (simp only: prod.case)
  have "u = 0" using assms unfolding u_def i_def .
  then show ?thesis unfolding eq by simp
qed

lemma calculateIoU_tsx_zero_union_NaN:
  assumes "(a2 - a0) * (a3 - a1) + (b2 - b0) * (b3 - b1)
             - max 0 (min a2 b2 - max a0 b0) * max 0 (min a3 b3 - max a1 b1) = 0"
  shows "calculateIoU_tsx (a0, a1, a2, a3) (b0, b1, b2, b3) = NaN"
proof -
  define i where "i = max 0 (min a2 b2 - max a0 b0) * max 0 (min a3 b3 - max a1 b1)"
  define u where "u = (a2 - a0) * (a3 - a1) + (b2 - b0) * (b3 - b1) - i"
  have eq: "calculateIoU_tsx (a0, a1, a2, a3) (b0, b1, b2, b3) = js_div (Num i) (Num u)"
    unfolding calculateIoU_tsx_def Let_def u_def i_def by (simp only: prod.case)
  have u: "u = 0" using assms unfolding u_def i_def .
  have i0: "0 \<le> i" unfolding i_def by simp
  have "i = 0"
  proof (rule ccontr)
    assume "i \<noteq> 0"
    with i0 have ip: "0 < i" by linarith
    from inter_le_area[of a2 b2 a0 b0 a3 b3 a1 b1] ip
    have "i \<le> (a2 - a0) * (a3 - a1)" and "i \<le> (b2 - b0) * (b3 - b1)"
      unfolding i_def by blast+
    with u ip show False unfolding u_def by linarith
  qed
  with u show ?thesis unfolding eq by simp
qed

section \<open>The matcher refines the reference\<close>

lemma fold_pred_step_filter:
  "fold (\<lambda>ip st. pred_step iou g matched st ip) cs st =
   fold (\<lambda>ip st. pred_step iou g {} st ip) (filter (\<lambda>(i, p). i \<notin> matched) cs) st"
  by (induction cs arbitrary: st) (auto simp: pred_step_def split: prod.splits)

lemma pred_step_ref:
  assumes "scan_rel st (w, c)"
  shows "scan_rel (pred_step iou g {} st (i, p))
           (if js_gt (iou (bbox g) (bbox p)) w then (iou (bbox g) (bbox p), Some i) else (w, c))"
proof -
  obtain x k where st: "st = (x, k)" by (cases st)
  with assms have x: "x = w" by (simp add: scan_rel_def)
  show ?thesis
  proof (cases "js_gt (iou (bbox g) (bbox p)) w")
    case True
    then show ?thesis by (simp add: scan_rel_def pred_step_def st x Let_def)
  next
    case False
    then show ?thesis using assms by (simp add: scan_rel_def pred_step_def st x Let_def)
  qed
qed

lemma fold_pred_step_ref:
  "scan_rel st best \<Longrightarrow>
   scan_rel (fold (\<lambda>ip st. pred_step iou g {} st ip) cs st) (ref_scan iou g best cs)"
proof (induction cs arbitrary: st best)
  case Nil
  then show ?case by simp
next
  case (Cons a cs)
  obtain i p where a: "a = (i, p)" by (cases a)
  obtain w c where best: "best = (w, c)" by (cases best)
  from Cons.prems have "scan_rel st (w, c)" by (simp add: best)
  from Cons.IH[OF pred_step_ref[OF this, of iou g i p]]
  show ?case by (simp add: a best)
qed

lemma best_match_ref:
  "scan_rel (best_match iou g preds matched)
     (ref_scan iou g (Num 0, None) (filter (\<lambda>(i, p). i \<notin> matched) (indexed preds)))"
  unfolding best_match_def fold_pred_step_filter[of iou g matched]
  by (rule fold_pred_step_ref) (simp add: scan_rel_def)

lemma fold_gt_step_ref:
  "fst (fold (gt_step iou preds) gs (tp, matched)) =
   tp + int (ref_match iou gs (filter (\<lambda>(i, p). i \<notin> matched) (indexed preds)))"
proof (induction gs arbitrary: tp matched)
  case Nil
  then show ?case by simp
next
  case (Cons g gs)
  let ?cs = "filter (\<lambda>(i, p). i \<notin> matched) (indexed preds)"
  obtain x k where bm: "best_match iou g preds matched = (x, k)"
    by (cases "best_match iou g preds matched")
  obtain w c where rs: "ref_scan iou g (Num 0, None) ?cs = (w, c)"
    by (cases "ref_scan iou g (Num 0, None) ?cs")
  have rel: "scan_rel (x, k) (w, c)"
    using best_match_ref[of iou g preds matched] by (simp add: bm rs)
  then have x: "x = w" by (simp add: scan_rel_def)
  show ?case
  proof (cases c)
    case None
    with rel have "x = Num 0" by (auto simp: scan_rel_def)
    then have "gt_step iou preds g (tp, matched) = (tp, matched)"
      by (simp add: gt_step_def bm IOU_THRESHOLD_def)
    then show ?thesis using Cons.IH[of tp matched] by (simp add: rs None)
  next
    case (Some j)
    with rel have k: "k = j" by (simp add: scan_rel_def)
    show ?thesis
    proof (cases "js_ge w (Num (1 / 2))")
      case True
      then have step: "gt_step iou preds g (tp, matched) = (tp + 1, insert j matched)"
        by (simp add: gt_step_def bm IOU_THRESHOLD_def x k)
      have flt: "filter (\<lambda>(i, p). i \<notin> insert j matched) (indexed preds) =
                 filter (\<lambda>(i, p). i \<noteq> j) ?cs"
        by (auto intro!: filter_cong)
      have "fst (fold (gt_step iou preds) (g # gs) (tp, matched)) =
            fst (fold (gt_step iou preds) gs (tp + 1, insert j matched))"
        by (simp add: step)
      also have "\<dots> = tp + 1 + int (ref_match iou gs
                   (filter (\<lambda>(i, p). i \<notin> insert j matched) (indexed preds)))"
        by (rule Cons.IH)
      also have "\<dots> = tp + 1 + int (ref_match iou gs (filter (\<lambda>(i, p). i \<noteq> j) ?cs))"
        by (simp only: flt)
      also have "\<dots> = tp + int (ref_match iou (g # gs) ?cs)"
        using True by (simp add: rs Some)
      finally show ?thesis .
    next
      case False
      then have "gt_step iou preds g (tp, matched) = (tp, matched)"
        by (simp add: gt_step_def bm IOU_THRESHOLD_def x)
      then show ?thesis using Cons.IH[of tp matched] False by (simp add: rs Some)
    qed
  qed
qed

lemma match_boxes_ref:
  "fst (match_boxes iou gs preds) = int (ref_match iou gs (indexed preds))"
  unfolding match_boxes_def using fold_gt_step_ref[of iou preds gs 0 "{}"] by simp

lemma ref_scan_index:
  "ref_scan iou g best cs = (w, Some j) \<Longrightarrow> snd best = Some j \<or> j \<in> fst ` set cs"
proof (induction cs arbitrary: best)
  case Nil
  then show ?case by simp
next
  case (Cons a cs)
  obtain i p where a: "a = (i, p)" by (cases a)
  obtain v c where best: "best = (v, c)" by (cases best)
  from Cons.prems have
    "ref_scan iou g (if js_gt (iou (bbox g) (bbox p)) v then (iou (bbox g) (bbox p), Some i)
                     else (v, c)) cs = (w, Some j)"
    by (simp add: a best)
  from Cons.IH[OF this] show ?case by (auto simp: a best split: if_splits)
qed

lemma ref_match_le_gt: "ref_match iou gs cs \<le> length gs"
proof (induction gs arbitrary: cs)
  case Nil
  then show ?case by simp
next
  case (Cons g gs)
  obtain w c where rs: "ref_scan iou g (Num 0, None) cs = (w, c)"
    by (cases "ref_scan iou g (Num 0, None) cs")
  show ?case
  proof (cases c)
    case None
    then show ?thesis using Cons.IH[of cs] by (simp add: rs)
  next
    case (Some j)
    then show ?thesis
      using Cons.IH[of cs] Cons.IH[of "filter (\<lambda>(i, p). i \<noteq> j) cs"] by (simp add: rs)
  qed
qed

lemma ref_match_le_pred: "ref_match iou gs cs \<le> length cs"
proof (induction gs arbitrary: cs)
  case Nil
  then show ?case by simp
next
  case (Cons g gs)
  obtain w c where rs: "ref_scan iou g (Num 0, None) cs = (w, c)"
    by (cases "ref_scan iou g (Num 0, None) cs")
  show ?case
  proof (cases c)
    case None
    then show ?thesis using Cons.IH[of cs] by (simp add: rs)
  next
    case (Some j)
    from ref_scan_index[of iou g "(Num 0, None)" cs w j] rs Some
    have "j \<in> fst ` set cs" by simp
    then obtain a where "a \<in> set cs" "\<not> (\<lambda>(i, p). i \<noteq> j) a" by auto
    then have "length (filter (\<lambda>(i, p). i \<noteq> j) cs) < length cs"
      by (rule length_filter_less)
    with Cons.IH[of "filter (\<lambda>(i, p). i \<noteq> j) cs"] Cons.IH[of cs] show ?thesis
      by (simp add: rs Some)
  qed
qed

lemma length_indexed: "length (indexed xs) = length xs"
  by (simp add: indexed_def)

lemma match_boxes_bounds:
  "0 \<le> fst (match_boxes iou gtBoxes predBoxes) \<and>
   fst (match_boxes iou gtBoxes predBoxes) \<le> int (length predBoxes) \<and>
   fst (match_boxes iou gtBoxes predBoxes) \<le> int (length gtBoxes)"
  using ref_match_le_gt[of iou gtBoxes "indexed predBoxes"]
        ref_match_le_pred[of iou gtBoxes "indexed predBoxes"]
  by (simp add: match_boxes_ref length_indexed)

lemma evaluateSingleFile_eq:
  "evaluateSingleFile gtData predData = map (\<lambda>t. (t, evaluate_tag gtData predData t)) UI_TAGS"
  by (simp add: evaluateSingleFile_def evaluateSingleFile_with_def evaluate_tag_def)

lemma evaluate_tag_outcome_ok: "outcome_ok (evaluate_tag gtData predData t)"
  using match_boxes_bounds[of calculateIoU "filter (\<lambda>l. tag l = t) (labels gtData)"
                              "filter (\<lambda>l. tag l = t) (labels predData)"]
  by (simp add: outcome_ok_def evaluate_tag_def evaluate_tag_with_def Let_def)

section \<open>The matcher of the interactive export\<close>

lemma tsx_gt_fold_match:
  "fold (\<lambda>g s. tsx_gt_step predBox mg s g) gs st = (b', Some g') \<Longrightarrow>
   snd st = Some g' \<or> (g' \<in> set gs \<and> box_id g' \<notin> mg)"
proof (induction gs arbitrary: st)
  case Nil
  then show ?case by simp
next
  case (Cons g gs)
  from Cons.prems have "fold (\<lambda>g s. tsx_gt_step predBox mg s g) gs (tsx_gt_step predBox mg st g) = (b', Some g')"
    by simp
  from Cons.IH[OF this] show ?case
    by (auto simp: tsx_gt_step_def Let_def split: prod.splits if_splits)
qed

lemma tsx_pred_step_inv:
  assumes "tsx_inv gtBoxes st"
  shows "tsx_inv gtBoxes (tsx_pred_step gtBoxes predBox st)"
proof -
  obtain tp mg mp where st: "st = (tp, mg, mp)" by (cases st)
  from assms st have fin: "finite mg" and sub: "mg \<subseteq> box_id ` set gtBoxes" and tp: "tp = int (card mg)"
    by (simp_all add: tsx_inv_def)
  obtain b m where f: "fold (\<lambda>g s. tsx_gt_step predBox mg s g) gtBoxes (Num 0, None) = (b, m)"
    by (cases "fold (\<lambda>g s. tsx_gt_step predBox mg s g) gtBoxes (Num 0, None)")
  show ?thesis
  proof (cases m)
    case None
    then show ?thesis using assms by (simp add: tsx_pred_step_def st f)
  next
    case (Some g)
    from tsx_gt_fold_match[of predBox mg gtBoxes "(Num 0, None)" b g] f Some
    have g: "g \<in> set gtBoxes" "box_id g \<notin> mg" by simp_all
    then show ?thesis using fin sub tp
      by (simp add: tsx_pred_step_def st f Some tsx_inv_def)
  qed
qed

lemma tsx_fold_inv:
  "tsx_inv gtBoxes st \<Longrightarrow> tsx_inv gtBoxes (fold (tsx_pred_step gtBoxes) ps st)"
  by (induction ps arbitrary: st) (simp_all add: tsx_pred_step_inv)

lemma tsx_pred_step_tp:
  "fst st \<le> fst (tsx_pred_step gtBoxes predBox st) \<and>
   fst (tsx_pred_step gtBoxes predBox st) \<le> fst st + 1"
  by (auto simp: tsx_pred_step_def split: prod.splits option.splits)

lemma tsx_fold_tp:
  "fst st \<le> fst (fold (tsx_pred_step gtBoxes) ps st) \<and>
   fst (fold (tsx_pred_step gtBoxes) ps st) \<le> fst st + int (length ps)"
proof (induction ps arbitrary: st)
  case Nil
  then show ?case by simp
next
  case (Cons p ps)
  from Cons.IH[of "tsx_pred_step gtBoxes p st"] tsx_pred_step_tp[of st gtBoxes p]
  show ?case by simp
qed

lemma tsx_match_bounds:
  "0 \<le> fst (tsx_match gtBoxes predBoxes) \<and>
   fst (tsx_match gtBoxes predBoxes) \<le> int (length predBoxes) \<and>
   fst (tsx_match gtBoxes predBoxes) \<le> int (length gtBoxes)"
proof -
  obtain tp mg mp where r: "tsx_match gtBoxes predBoxes = (tp, mg, mp)"
    by (cases "tsx_match gtBoxes predBoxes")
  have "tsx_inv gtBoxes (0, {}, {})" by (simp add: tsx_inv_def)
  from tsx_fold_inv[OF this, of predBoxes] r
  have fin: "finite mg" and sub: "mg \<subseteq> box_id ` set gtBoxes" and tp: "tp = int (card mg)"
    by (simp_all add: tsx_match_def tsx_inv_def)
  have "card mg \<le> card (box_id ` set gtBoxes)" using sub by (simp add: card_mono)
  also have "\<dots> \<le> card (set gtBoxes)" by (simp add: card_image_le)
  also have "\<dots> \<le> length gtBoxes" by (rule card_length)
  finally have "tp \<le> int (length gtBoxes)" using tp by simp
  moreover from tsx_fold_tp[of "(0, {}, {})" gtBoxes predBoxes] r
  have "0 \<le> tp" "tp \<le> int (length predBoxes)" by (simp_all add: tsx_match_def)
  ultimately show ?thesis by (simp add: r)
qed

lemma tsx_counts_bounds:
  "0 \<le> true_positives (tsx_counts ms ps t) \<and> 0 \<le> false_positives (tsx_counts ms ps t) \<and>
   0 \<le> false_negatives (tsx_counts ms ps t)"
  using tsx_match_bounds[of "filter (\<lambda>l. tag l = t) ms" "filter (\<lambda>l. tag l = t) ps"]
  by (simp add: tsx_counts_def Let_def)

lemma tsx_tag_outcome_ok: "outcome_ok (tsx_tag ms ps t)"
  using tsx_match_bounds[of "filter (\<lambda>l. tag l = t) ms" "filter (\<lambda>l. tag l = t) ps"]
  by (simp add: outcome_ok_def tsx_tag_def store_rounded_def tsx_rates_def tsx_counts_def Let_def)

section \<open>Aggregation\<close>

lemma add_file_commute:
  "add_file t a (add_file t b s) = add_file t b (add_file t a s)"
  by (simp add: add_file_def add_stats_def split: option.splits)

lemma fold_add_file_perm:
  assumes "mset xs = mset ys"
  shows "fold (add_file t) xs = fold (add_file t) ys"
  by (rule fold_multiset_equiv[OF _ assms]) (auto simp: fun_eq_iff add_file_commute)

lemma aggregate_tag_perm:
  "mset xs = mset ys \<Longrightarrow> aggregate_tag xs t = aggregate_tag ys t"
  by (simp add: aggregate_tag_def fold_add_file_perm[of xs ys t])

lemma aggregateResults_perm:
  "mset xs = mset ys \<Longrightarrow> aggregateResults xs = aggregateResults ys"
  by (simp add: aggregateResults_def aggregate_tag_perm[of xs ys])

lemma fold_add_stats:
  "fold (\<lambda>stats acc. add_stats acc stats) ms z =
     \<lparr> true_positives = true_positives z + sum_list (map true_positives ms),
       false_positives = false_positives z + sum_list (map false_positives ms),
       false_negatives = false_negatives z + sum_list (map false_negatives ms),
       ground_truth_count = ground_truth_count z + sum_list (map ground_truth_count ms),
       predicted_count = predicted_count z + sum_list (map predicted_count ms) \<rparr>"
  by (induction ms arbitrary: z) (simp_all add: add_stats_def algebra_simps)

lemma aggregateResults_overall:
  "aggregateResults xs =
     map (\<lambda>t. (t, aggregate_tag xs t)) UI_TAGS @
     [(''Overall'', with_rates (sum_stats (map (aggregate_tag xs) UI_TAGS)))]"
  by (simp add: aggregateResults_def fold_add_stats zero_stats_def sum_stats_def comp_def)

section \<open>The batch driver\<close>

lemma process_pair_loaded:
  "path_extname env file = ''.json'' \<Longrightarrow>
   (case process_pair iou env g p file of
      Inr fm \<Rightarrow> \<exists>a b. loaded_pair env g p file = Some (a, b) \<and> fm = evaluateSingleFile_with iou a b
    | Inl err \<Rightarrow> loaded_pair env g p file = None)"
  by (auto simp: process_pair_def loaded_pair_def load_doc_def Let_def split: sum.splits)

lemma file_step_char:
  "file_step iou env g p file (ms, out) =
     (ms @ loaded_metrics_with iou env g p [file], out @ skip_output iou env g p file)"
proof (cases "path_extname env file = ''.json''")
  case False
  then show ?thesis
    by (simp add: file_step_def loaded_metrics_with_def loaded_pair_def skip_output_def)
next
  case True
  show ?thesis using process_pair_loaded[OF True, where iou = iou and g = g and p = p]
    by (auto simp: file_step_def loaded_metrics_with_def skip_output_def True
             split: sum.splits)
qed

lemma loaded_metrics_Cons:
  "loaded_metrics_with iou env g p (f # fs) = loaded_metrics_with iou env g p [f] @ loaded_metrics_with iou env g p fs"
  by (simp add: loaded_metrics_with_def split: option.splits)

lemma fold_file_step:
  "fold (file_step iou env g p) files (ms, out) =
     (ms @ loaded_metrics_with iou env g p files, out @ concat (map (skip_output iou env g p) files))"
proof (induction files arbitrary: ms out)
  case Nil
  then show ?case by (simp add: loaded_metrics_with_def)
next
  case (Cons f fs)
  show ?case
    by (simp add: file_step_char Cons.IH loaded_metrics_Cons[of iou env g p f fs])
qed

lemma main_run:
  assumes "readdir env g = Inr files"
  shows "main_with iou env [g, p] =
     (concat (map (skip_output iou env g p) files) @
        [if loaded_metrics_with iou env g p files = []
         then ConsoleLog ''No matching file pairs found to evaluate.''
         else PrintReport (aggregateResults (loaded_metrics_with iou env g p files))], 0)"
  using assms by (simp add: main_with_def fold_file_step)

lemma skip_output_no_report: "e \<in> set (skip_output iou env g p file) \<Longrightarrow> \<not> is_report e"
proof (cases "process_pair iou env g p file")
  case (Inl err)
  assume "e \<in> set (skip_output iou env g p file)"
  then have "e = ConsoleWarn (''Warning: Prediction file not found for '' @ file @ ''. Skipping.'')
           \<or> e = ConsoleErrorWith (''Error processing file '' @ file @ '':'') (err_message err)"
    by (cases "path_extname env file = ''.json''"; cases "err_code err = Some ''ENOENT''")
       (simp_all add: skip_output_def Inl)
  then show ?thesis by auto
next
  case (Inr fm)
  assume "e \<in> set (skip_output iou env g p file)"
  then show ?thesis by (cases "path_extname env file = ''.json''") (simp_all add: skip_output_def Inr)
qed

lemma skip_output_missing:
  assumes "path_extname env file = ''.json''"
      and "readFile env (path_join env g file) = Inr content"
      and "readFile env (path_join env p file) = Inl err"
      and "err_code err = Some ''ENOENT''"
  shows "skip_output iou env g p file =
           [ConsoleWarn (''Warning: Prediction file not found for '' @ file @ ''. Skipping.'')]"
    and "loaded_pair env g p file = None"
  using assms by (simp_all add: skip_output_def process_pair_def loaded_pair_def load_doc_def Let_def
                           split: sum.splits option.splits)

lemma skip_output_unreadable:
  assumes "path_extname env file = ''.json''"
      and "readFile env (path_join env g file) = Inl err"
      and "err_code err \<noteq> Some ''ENOENT''"
  shows "skip_output iou env g p file =
           [ConsoleErrorWith (''Error processing file '' @ file @ '':'') (err_message err)]"
    and "loaded_pair env g p file = None"
  using assms by (simp_all add: skip_output_def process_pair_def loaded_pair_def load_doc_def Let_def)

lemma skip_output_malformed:
  assumes "path_extname env file = ''.json''"
      and "readFile env (path_join env g file) = Inr gtContent"
      and "readFile env (path_join env p file) = Inr predContent"
      and "(\<exists>msg. JSON_parse env gtContent = Inl msg) \<or> (\<exists>msg. JSON_parse env predContent = Inl msg)"
  shows "\<exists>msg. skip_output iou env g p file =
           [ConsoleErrorWith (''Error processing file '' @ file @ '':'') msg]"
    and "loaded_pair env g p file = None"
  using assms by (auto simp: skip_output_def process_pair_def loaded_pair_def load_doc_def Let_def
                           split: sum.splits option.splits)

lemma filter_is_report_skip:
  "filter is_report (concat (map (skip_output iou env g p) files)) = []"
  by (auto simp: filter_empty_conv dest: skip_output_no_report)

lemma in_skip_output:
  "f \<in> set files \<Longrightarrow> e \<in> set (skip_output iou env g p f) \<Longrightarrow>
   e \<in> set (concat (map (skip_output iou env g p) files) @ [x])"
  by auto

lemma args_two: "length args = 2 \<Longrightarrow> args = [args ! 0, args ! 1]"
  by (cases args; cases "tl args") auto

lemma main_run_exact:
  assumes "readdir env g = Inr files"
  shows "main env [g, p] =
     (concat (map (skip_output calculateIoU env g p) files) @
        [if loaded_metrics env g p files = []
         then ConsoleLog ''No matching file pairs found to evaluate.''
         else PrintReport (aggregateResults (loaded_metrics env g p files))], 0)"
  using main_run[OF assms, where iou = calculateIoU and p = p] by (simp add: main_def loaded_metrics_def)

lemma ex_env_loaded:
  "loaded_metrics ex_env ''gt'' ''pred'' [''a.json'', ''b.json'', ''c.json'', ''notes.txt'']
     = [evaluateSingleFile ex_gt ex_pred]"
  by (simp add: loaded_metrics_def loaded_metrics_with_def evaluateSingleFile_def
                List.map_filter_def loaded_pair_def load_doc_def ex_env_def)

section \<open>The rates\<close>

lemma precision_of_Num:
  "precision_of tp fp =
     Num (if real_of_int tp + real_of_int fp > 0
          then real_of_int tp / (real_of_int tp + real_of_int fp) else 0)"
proof -
  have "(0 < tp + fp) = (0 < real_of_int tp + real_of_int fp)"
    by (metis of_int_0_less_iff of_int_add)
  then show ?thesis by (auto simp: precision_of_def)
qed

lemma recall_of_Num:
  "recall_of tp fn =
     Num (if real_of_int tp + real_of_int fn > 0
          then real_of_int tp / (real_of_int tp + real_of_int fn) else 0)"
proof -
  have "(0 < tp + fn) = (0 < real_of_int tp + real_of_int fn)"
    by (metis of_int_0_less_iff of_int_add)
  then show ?thesis by (auto simp: recall_of_def)
qed

lemma f1_of_Num:
  "f1_of (Num p) (Num r) = Num (if p + r > 0 then 2 * p * r / (p + r) else 0)"
  by (auto simp: f1_of_def)

lemma tsx_f1_Num:
  "tsx_f1 (Num p) (Num r) = Num (if p + r > 0 then 2 * p * r / (p + r) else 0)"
  by (auto simp: tsx_f1_def)

lemma tsx_precision_Num:
  assumes "0 \<le> tp" "0 \<le> fp"
  shows "tsx_precision tp fp =
     Num (if real_of_int tp + real_of_int fp > 0
          then real_of_int tp / (real_of_int tp + real_of_int fp) else 0)"
proof (cases "0 < tp")
  case True
  with assms have "0 < real_of_int tp + real_of_int fp" by linarith
  with True show ?thesis by (auto simp: tsx_precision_def)
next
  case False
  with assms have "tp = 0" by simp
  then show ?thesis by (simp add: tsx_precision_def)
qed

lemma tsx_recall_Num:
  assumes "0 \<le> tp" "0 \<le> fn"
  shows "tsx_recall tp fn =
     Num (if real_of_int tp + real_of_int fn > 0
          then real_of_int tp / (real_of_int tp + real_of_int fn) else 0)"
proof (cases "0 < tp")
  case True
  with assms have "0 < real_of_int tp + real_of_int fn" by linarith
  with True show ?thesis by (auto simp: tsx_recall_def)
next
  case False
  with assms have "tp = 0" by simp
  then show ?thesis by (simp add: tsx_recall_def)
qed

lemma with_rates_ok: "rates_ok (with_rates s)"
  by (simp add: rates_ok_def with_rates_def Let_def precision_of_Num recall_of_Num f1_of_Num)

lemma evaluate_tag_rates_ok: "rates_ok (evaluate_tag gtData predData t)"
  by (simp add: rates_ok_def evaluate_tag_def evaluate_tag_with_def Let_def precision_of_Num
                recall_of_Num f1_of_Num)

lemma tsx_rates_nonneg_ok:
  assumes "0 \<le> true_positives c" "0 \<le> false_positives c" "0 \<le> false_negatives c"
  shows "rates_ok (tsx_rates c)"
  using assms
  by (simp add: rates_ok_def tsx_rates_def Let_def tsx_precision_Num tsx_recall_Num tsx_f1_Num)

lemma tsx_rates_ok: "rates_ok (tsx_rates (tsx_counts ms ps t))"
  using tsx_counts_bounds[of ms ps t] by (simp add: tsx_rates_nonneg_ok)

lemma fold_sum_nonneg:
  fixes f :: "'a \<Rightarrow> int"
  shows "(\<And>m. m \<in> set ms \<Longrightarrow> 0 \<le> f m) \<Longrightarrow> 0 \<le> a \<Longrightarrow> 0 \<le> fold (\<lambda>m s. s + f m) ms a"
  by (induction ms arbitrary: a) simp_all

lemma tsx_overall_rates_ok:
  "rates_ok (tsx_rates (tsx_overall_counts ms ps (map (tsx_tag ms ps) ts)))"
proof -
  have ok: "outcome_ok m" if "m \<in> set (map (tsx_tag ms ps) ts)" for m
    using that by (auto simp: tsx_tag_outcome_ok)
  show ?thesis
  proof (rule tsx_rates_nonneg_ok)
    show "0 \<le> true_positives (tsx_overall_counts ms ps (map (tsx_tag ms ps) ts))"
      unfolding tsx_overall_counts_def Let_def
      by (simp, rule fold_sum_nonneg) (use ok in \<open>auto simp: outcome_ok_def\<close>)
    show "0 \<le> false_positives (tsx_overall_counts ms ps (map (tsx_tag ms ps) ts))"
      unfolding tsx_overall_counts_def Let_def
      by (simp, rule fold_sum_nonneg) (use ok in \<open>auto simp: outcome_ok_def\<close>)
    show "0 \<le> false_negatives (tsx_overall_counts ms ps (map (tsx_tag ms ps) ts))"
      unfolding tsx_overall_counts_def Let_def
      by (simp, rule fold_sum_nonneg) (use ok in \<open>auto simp: outcome_ok_def\<close>)
  qed
qed

lemma round3_Num: "round3 (Num p) = Num (of_int \<lfloor>p * 1000 + 1 / 2\<rfloor> / 1000)"
  by (simp add: round3_def)

lemma round3_near: "rate_near (Num p) (round3 (Num p))"
proof -
  have "\<bar>of_int \<lfloor>p * 1000 + 1 / 2\<rfloor> - p * 1000\<bar> \<le> 1 / 2" by linarith
  then have "\<bar>of_int \<lfloor>p * 1000 + 1 / 2\<rfloor> / 1000 - p\<bar> < 1 / 1000"
    by (simp add: field_simps)
  then show ?thesis by (simp add: round3_Num)
qed

lemma stored_from_rounded:
  assumes "rates_ok m0"
  shows "stored_from m0 (store_rounded m0)"
proof -
  from assms obtain p r f where
    "precision m0 = Num p" "recall m0 = Num r" "f1_score m0 = Num f"
    by (auto simp: rates_ok_def Let_def)
  then show ?thesis
    using round3_near[of p] round3_near[of r] round3_near[of f]
    by (simp add: stored_from_def store_rounded_def)
qed

lemma generateEvaluation_entries:
  assumes "generateEvaluation ms ps = Some summary" and "(t, m) \<in> set summary"
  shows "\<exists>m0. rates_ok m0 \<and> stored_from m0 m"
proof -
  let ?tags = "[''Button'', ''Input'', ''Radio'', ''Dropdown'']"
  let ?ov = "tsx_rates (tsx_overall_counts ms ps (map (tsx_tag ms ps) ?tags))"
  from assms(1) have s: "summary = map (\<lambda>t. (t, tsx_tag ms ps t)) ?tags @
                           [(''overall'', store_rounded ?ov)]"
    by (simp add: generateEvaluation_def Let_def comp_def split: if_splits)
  from assms(2) have "(\<exists>t'. m = tsx_tag ms ps t') \<or> m = store_rounded ?ov"
    unfolding s by auto
  then show ?thesis
  proof
    assume "\<exists>t'. m = tsx_tag ms ps t'"
    then obtain t' where "m = store_rounded (tsx_rates (tsx_counts ms ps t'))"
      by (auto simp: tsx_tag_def)
    with stored_from_rounded[OF tsx_rates_ok[of ms ps t']] tsx_rates_ok[of ms ps t']
    show ?thesis by blast
  next
    assume "m = store_rounded ?ov"
    with stored_from_rounded[OF tsx_overall_rates_ok[of ms ps ?tags]]
         tsx_overall_rates_ok[of ms ps ?tags]
    show ?thesis by blast
  qed
qed

lemma evaluate_tag_empty:
  assumes "labels gtData = []" "labels predData = []"
  shows "precision (evaluate_tag gtData predData t) = Num 0 \<and>
         recall (evaluate_tag gtData predData t) = Num 0 \<and>
         f1_score (evaluate_tag gtData predData t) = Num 0"
  using assms
  by (simp add: evaluate_tag_def evaluate_tag_with_def Let_def match_boxes_def precision_of_def
                recall_of_def f1_of_def)

section \<open>Unrecognized tags\<close>

lemma filter_tag_recognized:
  "t \<in> set UI_TAGS \<Longrightarrow>
   filter (\<lambda>l. tag l = t) xs = filter (\<lambda>l. tag l = t) (filter (\<lambda>l. tag l \<in> set UI_TAGS) xs)"
  by (auto intro!: filter_cong)

lemma evaluate_tag_recognized:
  assumes "filter (\<lambda>l. tag l \<in> set UI_TAGS) (labels gtData) =
           filter (\<lambda>l. tag l \<in> set UI_TAGS) (labels gtData')"
      and "filter (\<lambda>l. tag l \<in> set UI_TAGS) (labels predData) =
           filter (\<lambda>l. tag l \<in> set UI_TAGS) (labels predData')"
      and "t \<in> set UI_TAGS"
  shows "evaluate_tag gtData predData t = evaluate_tag gtData' predData' t"
proof -
  have g: "filter (\<lambda>l. tag l = t) (labels gtData) = filter (\<lambda>l. tag l = t) (labels gtData')"
    using filter_tag_recognized[OF assms(3), of "labels gtData"]
          filter_tag_recognized[OF assms(3), of "labels gtData'"] assms(1) by simp
  have p: "filter (\<lambda>l. tag l = t) (labels predData) = filter (\<lambda>l. tag l = t) (labels predData')"
    using filter_tag_recognized[OF assms(3), of "labels predData"]
          filter_tag_recognized[OF assms(3), of "labels predData'"] assms(2) by simp
  show ?thesis by (simp add: evaluate_tag_def evaluate_tag_with_def g p)
qed

section \<open>Evaluation of the examples\<close>

lemma upt2: "[0..<Suc (Suc 0)] = [0, Suc 0]"
  by (simp add: upt_rec)

section \<open>The claims\<close>

text \<open>
  C1: for every pair of label-set documents and every IoU function (the values the
  script computes in double precision are one), the true-positive count that the batch
  matcher reports for each configured category, in the order of the categories, is the
  count of the reference greedy assignment: ground-truth boxes in list order, each against
  the predicted boxes of the category not matched so far, the best candidate replaced only
  on a strictly greater IoU, and a match recorded, with the candidate used up, exactly
  when the best IoU is at least \<open>0.5\<close>.
\<close>

theorem matcher_true_positives_reference:
  "map (\<lambda>(t, m). (t, true_positives m)) (evaluateSingleFile_with iou gtData predData) =
   map (\<lambda>t. (t, int (ref_true_positives iou (labels gtData) (labels predData) t))) UI_TAGS"
  by (simp add: evaluateSingleFile_with_def evaluate_tag_with_def Let_def match_boxes_ref
                ref_true_positives_def comp_def)

theorem matcher_true_positives_reference_witness:
  "map (\<lambda>(t, m). (t, true_positives m)) (evaluateSingleFile_with calculateIoU ex_gt ex_pred) =
     [(''Button'', 1), (''Input'', 0), (''Radio'', 0), (''Dropdown'', 0)] \<and>
   map (\<lambda>(t, m). (t, true_positives m)) (evaluateSingleFile_with ex_iou_below ex_gt ex_pred) =
     [(''Button'', 0), (''Input'', 0), (''Radio'', 0), (''Dropdown'', 0)]"
  using matcher_true_positives_reference[of calculateIoU ex_gt ex_pred]
        matcher_true_positives_reference[of ex_iou_below ex_gt ex_pred]
  by (simp add: ref_true_positives_def UI_TAGS_def ex_gt_def ex_pred_def indexed_def
                calculateIoU_def ex_iou_below_def upt2)

text \<open>
  C2: the IoU is a number in \<open>[0, 1]\<close> and is exactly \<open>0\<close>, never \<open>NaN\<close>, when the
  union area is \<open>0\<close>. The batch script's \<open>calculateIoU\<close> does so in exact arithmetic
  (\<open>calculateIoU_range\<close> and \<open>calculateIoU_zero_union\<close> above). The export's \<open>calculateIoU\<close> has no guard: for two
  zero-area boxes, and for a box against its mirror image of opposite area, it divides
  \<open>0\<close> by \<open>0\<close>, where the batch script returns \<open>0\<close>.
\<close>

theorem calculateIoU_tsx_zero_union:
  "calculateIoU_tsx (0, 0, 0, 0) (0, 0, 0, 0) = NaN \<and>
   calculateIoU_tsx (0, 0, 20, 20) (20, 0, 0, 20) = NaN \<and>
   calculateIoU (0, 0, 0, 0) (0, 0, 0, 0) = Num 0 \<and>
   calculateIoU (0, 0, 20, 20) (20, 0, 0, 20) = Num 0"
  by (simp add: calculateIoU_tsx_def calculateIoU_def)

text \<open>
  C3: every per-category match outcome, of the batch matcher and of the export,
  satisfies ground-truth count = TP + FN, predicted count = TP + FP and
  TP \<le> min (ground-truth count) (predicted count); no count is negative. The export
  produces outcomes only when both label lists are non-empty.
\<close>

theorem match_outcome_invariant:
  "(\<forall>(t, m) \<in> set (evaluateSingleFile gtData predData). outcome_ok m) \<and>
   (\<forall>summary. generateEvaluation manualLabels predictedLabels = Some summary \<longrightarrow>
      (\<forall>t \<in> set UI_TAGS. \<exists>m. map_of summary t = Some m \<and> outcome_ok m))"
proof (intro conjI allI impI)
  show "\<forall>(t, m) \<in> set (evaluateSingleFile gtData predData). outcome_ok m"
    by (auto simp: evaluateSingleFile_eq evaluate_tag_outcome_ok)
next
  fix summary
  assume "generateEvaluation manualLabels predictedLabels = Some summary"
  then have s: "summary = map (\<lambda>t. (t, tsx_tag manualLabels predictedLabels t)) UI_TAGS @
                  [(''overall'', the (map_of summary ''overall''))]"
    by (auto simp: generateEvaluation_def Let_def UI_TAGS_def split: if_splits)
  show "\<forall>t \<in> set UI_TAGS. \<exists>m. map_of summary t = Some m \<and> outcome_ok m"
  proof
    fix t assume t: "t \<in> set UI_TAGS"
    have "map_of summary t = Some (tsx_tag manualLabels predictedLabels t)"
      apply (subst s) using t by (auto simp: UI_TAGS_def)
    then show "\<exists>m. map_of summary t = Some m \<and> outcome_ok m"
      by (simp add: tsx_tag_outcome_ok)
  qed
qed

theorem match_outcome_invariant_witness:
  "outcome_ok (evaluate_tag ex_gt ex_pred ''Button'') \<and>
   (\<exists>summary m. generateEvaluation ex_manual ex_predicted = Some summary \<and>
      map_of summary ''Button'' = Some m \<and> outcome_ok m)"
proof -
  have a: "(''Button'', evaluate_tag ex_gt ex_pred ''Button'') \<in> set (evaluateSingleFile ex_gt ex_pred)"
    by (simp add: evaluateSingleFile_eq UI_TAGS_def)
  have b: "\<exists>summary. generateEvaluation ex_manual ex_predicted = Some summary"
    by (simp add: generateEvaluation_def ex_manual_def ex_predicted_def Let_def)
  have c: "''Button'' \<in> set UI_TAGS" by (simp add: UI_TAGS_def)
  from a b c match_outcome_invariant[of ex_gt ex_pred ex_manual ex_predicted]
  show ?thesis by blast
qed

text \<open>
  C4: in every entry of the batch matcher and of the aggregate report (the categories and
  \<open>Overall\<close>), precision is TP / (TP + FP) when TP + FP > 0 and 0 otherwise, recall is
  TP / (TP + FN) when TP + FN > 0 and 0 otherwise, and F1 is
  2 * precision * recall / (precision + recall) when precision + recall > 0 and 0
  otherwise; each rate is a finite number, so no division by zero occurs, and all three
  are \<open>0\<close> when both label sets are empty. The export computes its rates from the counts
  by the same formulas but stores each of them rounded to three decimals: every entry of
  its summary, the categories and \<open>overall\<close>, has finite rates less than \<open>0.001\<close> away
  from the values of the formulas.
\<close>

theorem rates_from_counts:
  "(\<forall>(t, m) \<in> set (evaluateSingleFile gtData predData). rates_ok m) \<and>
   (\<forall>(t, m) \<in> set (aggregateResults allMetrics). rates_ok m) \<and>
   (\<forall>summary. generateEvaluation manualLabels predictedLabels = Some summary \<longrightarrow>
      (\<forall>(t, m) \<in> set summary. \<exists>m0. rates_ok m0 \<and> stored_from m0 m)) \<and>
   (labels gtData = [] \<and> labels predData = [] \<longrightarrow>
      (\<forall>(t, m) \<in> set (evaluateSingleFile gtData predData).
         precision m = Num 0 \<and> recall m = Num 0 \<and> f1_score m = Num 0))"
proof (intro conjI impI allI)
  show "\<forall>(t, m) \<in> set (evaluateSingleFile gtData predData). rates_ok m"
    by (auto simp: evaluateSingleFile_eq evaluate_tag_rates_ok)
  show "\<forall>(t, m) \<in> set (aggregateResults allMetrics). rates_ok m"
    by (auto simp: aggregateResults_overall aggregate_tag_def with_rates_ok)
next
  fix summary
  assume "generateEvaluation manualLabels predictedLabels = Some summary"
  then show "\<forall>(t, m) \<in> set summary. \<exists>m0. rates_ok m0 \<and> stored_from m0 m"
    by (auto dest: generateEvaluation_entries)
next
  assume "labels gtData = [] \<and> labels predData = []"
  then show "\<forall>(t, m) \<in> set (evaluateSingleFile gtData predData).
         precision m = Num 0 \<and> recall m = Num 0 \<and> f1_score m = Num 0"
    by (auto simp: evaluateSingleFile_eq evaluate_tag_empty)
qed

theorem rates_from_counts_witness:
  "rates_ok (evaluate_tag ex_gt ex_pred ''Button'') \<and>
   rates_ok (aggregate_tag [evaluateSingleFile ex_gt ex_pred] ''Button'') \<and>
   (\<exists>m0. rates_ok m0 \<and> stored_from m0 (tsx_tag ex_square ex_three ''Button'')) \<and>
   precision (evaluate_tag ex_empty ex_empty ''Button'') = Num 0 \<and>
   recall (evaluate_tag ex_empty ex_empty ''Button'') = Num 0 \<and>
   f1_score (evaluate_tag ex_empty ex_empty ''Button'') = Num 0"
proof -
  have a: "(''Button'', evaluate_tag ex_gt ex_pred ''Button'') \<in> set (evaluateSingleFile ex_gt ex_pred)"
    by (simp add: evaluateSingleFile_eq UI_TAGS_def)
  have b: "(''Button'', aggregate_tag [evaluateSingleFile ex_gt ex_pred] ''Button'')
             \<in> set (aggregateResults [evaluateSingleFile ex_gt ex_pred])"
    by (simp add: aggregateResults_def UI_TAGS_def Let_def)
  have c: "(''Button'', evaluate_tag ex_empty ex_empty ''Button'') \<in> set (evaluateSingleFile ex_empty ex_empty)"
    by (simp add: evaluateSingleFile_eq UI_TAGS_def)
  have d: "labels ex_empty = [] \<and> labels ex_empty = []" by (simp add: ex_empty_def)
  have e: "\<exists>summary. generateEvaluation ex_square ex_three = Some summary \<and>
             (''Button'', tsx_tag ex_square ex_three ''Button'') \<in> set summary"
    by (simp add: generateEvaluation_def Let_def ex_square_def ex_three_def)
  from a b e rates_from_counts[of ex_gt ex_pred "[evaluateSingleFile ex_gt ex_pred]"
                                  ex_square ex_three]
  have 1: "rates_ok (evaluate_tag ex_gt ex_pred ''Button'')"
    and 2: "rates_ok (aggregate_tag [evaluateSingleFile ex_gt ex_pred] ''Button'')"
    and 3: "\<exists>m0. rates_ok m0 \<and> stored_from m0 (tsx_tag ex_square ex_three ''Button'')"
    by blast+
  from c d rates_from_counts[of ex_empty ex_empty "[]" "[]" "[]"]
  have 4: "precision (evaluate_tag ex_empty ex_empty ''Button'') = Num 0 \<and>
   recall (evaluate_tag ex_empty ex_empty ''Button'') = Num 0 \<and>
   f1_score (evaluate_tag ex_empty ex_empty ''Button'') = Num 0" by blast
  from 1 2 3 4 show ?thesis by simp
qed

text \<open>
  The stored entries of the export do not satisfy the formulas themselves: with one true
  positive and two false positives the stored precision is \<open>0.333\<close>, in the \<open>Button\<close>
  entry and in \<open>overall\<close>, and not one third.
\<close>

theorem export_stored_rates_rounded:
  "map_option (map (\<lambda>(t, m). (t, true_positives m, false_positives m, precision m)))
     (generateEvaluation ex_square ex_three) =
     Some [(''Button'', 1, 2, Num (333 / 1000)), (''Input'', 0, 0, Num 0),
           (''Radio'', 0, 0, Num 0), (''Dropdown'', 0, 0, Num 0),
           (''overall'', 1, 2, Num (333 / 1000))] \<and>
   \<not> (\<forall>summary. generateEvaluation ex_square ex_three = Some summary \<longrightarrow>
         (\<forall>(t, m) \<in> set summary. rates_ok m))"
proof -
  have fl: "\<lfloor>(2003::real) / 6\<rfloor> = 333" by linarith
  have v: "map_option (map (\<lambda>(t, m). (t, true_positives m, false_positives m, precision m)))
     (generateEvaluation ex_square ex_three) =
     Some [(''Button'', 1, 2, Num (333 / 1000)), (''Input'', 0, 0, Num 0),
           (''Radio'', 0, 0, Num 0), (''Dropdown'', 0, 0, Num 0),
           (''overall'', 1, 2, Num (333 / 1000))]"
    by (simp add: generateEvaluation_def Let_def tsx_tag_def store_rounded_def
          tsx_overall_counts_def tsx_rates_def tsx_counts_def
          tsx_match_def tsx_pred_step_def tsx_gt_step_def calculateIoU_tsx_def
          ex_square_def ex_three_def iouThreshold_def
          tsx_precision_def tsx_recall_def tsx_f1_def round3_def fl)
  have "\<not> (\<forall>summary. generateEvaluation ex_square ex_three = Some summary \<longrightarrow>
         (\<forall>(t, m) \<in> set summary. rates_ok m))"
  proof
    assume h: "\<forall>summary. generateEvaluation ex_square ex_three = Some summary \<longrightarrow>
         (\<forall>(t, m) \<in> set summary. rates_ok m)"
    from v obtain summary where s: "generateEvaluation ex_square ex_three = Some summary"
      and l: "map (\<lambda>(t, m). (t, true_positives m, false_positives m, precision m)) summary =
               [(''Button'', 1, 2, Num (333 / 1000)), (''Input'', 0, 0, Num 0),
                (''Radio'', 0, 0, Num 0), (''Dropdown'', 0, 0, Num 0),
                (''overall'', 1, 2, Num (333 / 1000))]"
      by (cases "generateEvaluation ex_square ex_three") auto
    from l obtain t m where tm: "(t, m) \<in> set summary" "true_positives m = 1"
      "false_positives m = 2" "precision m = Num (333 / 1000)"
      by (cases summary) auto
    from h s tm(1) have "rates_ok m" by blast
    with tm(2-4) show False by (simp add: rates_ok_def Let_def)
  qed
  with v show ?thesis by simp
qed

text \<open>
  C5: the counts of the overall entry are the sums of the per-category counts. The
  aggregate report of the batch script is built so (\<open>aggregateResults_overall\<close> above).
  The export takes the overall ground-truth and predicted counts from the lengths of the
  whole label lists: with one predicted label of an unrecognized tag, the overall predicted
  count is \<open>2\<close> while the per-category predicted counts sum to \<open>1\<close>, which is also the
  overall TP + FP.
\<close>

theorem export_overall_counts_differ:
  "\<exists>summary. generateEvaluation ex_one_manual ex_stray = Some summary \<and>
     map (\<lambda>(t, m). (t, predicted_count m, true_positives m + false_positives m)) summary =
       [(''Button'', 1, 1), (''Input'', 0, 0), (''Radio'', 0, 0), (''Dropdown'', 0, 0),
        (''overall'', 2, 1)]"
  by (simp add: generateEvaluation_def Let_def tsx_tag_def store_rounded_def
        tsx_overall_counts_def tsx_rates_def tsx_counts_def
        tsx_match_def tsx_pred_step_def tsx_gt_step_def calculateIoU_tsx_def
        ex_one_manual_def ex_stray_def iouThreshold_def)

text \<open>
  C6: aggregating a permutation of a list of per-image match outcomes gives the
  same report, counts and rates alike.
\<close>

theorem aggregate_order_independent:
  "mset xs = mset ys \<Longrightarrow> aggregateResults xs = aggregateResults ys"
  by (rule aggregateResults_perm)

theorem aggregate_order_independent_witness:
  "aggregateResults [evaluateSingleFile ex_gt ex_pred, evaluateSingleFile ex_pred ex_gt,
                     evaluateSingleFile ex_empty ex_pred] =
   aggregateResults [evaluateSingleFile ex_empty ex_pred, evaluateSingleFile ex_gt ex_pred,
                     evaluateSingleFile ex_pred ex_gt]"
  by (rule aggregate_order_independent) (simp add: ac_simps)

text \<open>
  C7: the prediction-first matcher of the export and the ground-truth-first matcher
  of the batch script are not equivalent. On the example labels the export reports two
  true positives for \<open>Button\<close>; the batch script, on the same labels as the export writes
  them to its documents, reports one.
\<close>

theorem matching_directions_differ:
  "\<exists>summary.
     generateEvaluation ex_manual ex_predicted = Some summary \<and>
     map_option true_positives (map_of summary ''Button'') = Some 2 \<and>
     map_option true_positives
       (map_of (evaluateSingleFile
                  \<lparr> image_filename = ''screen.png'', labels = export_labels ex_manual \<rparr>
                  \<lparr> image_filename = ''screen.png'', labels = export_labels ex_predicted \<rparr>)
               ''Button'') = Some 1"
  by (simp add: generateEvaluation_def Let_def tsx_tag_def store_rounded_def
        tsx_overall_counts_def tsx_rates_def tsx_counts_def
        tsx_match_def tsx_pred_step_def tsx_gt_step_def calculateIoU_tsx_def
        ex_manual_def ex_predicted_def iouThreshold_def export_labels_def
        evaluateSingleFile_def evaluateSingleFile_with_def evaluate_tag_with_def UI_TAGS_def
        match_boxes_def gt_step_def best_match_def pred_step_def calculateIoU_def
        IOU_THRESHOLD_def indexed_def upt2)

text \<open>
  C8: when the ground-truth directory is read, the run ends with exit code \<open>0\<close>,
  whatever the IoU function; a \<open>.json\<close> file whose ground truth is read and whose
  prediction is missing is skipped with the warning; one whose ground truth cannot be read,
  for another reason than \<open>ENOENT\<close>, is skipped with the reported error; a pair of which a
  document fails to parse is skipped with a reported error (the call \<open>console.error\<close> with
  the file name and the message); the remaining pairs are processed, and the only report
  printed is the aggregate over exactly the successfully loaded pairs (none is printed when
  there is no such pair).
\<close>

theorem pair_failures_contained:
  assumes "readdir env gtFolder = Inr gtFiles"
  shows "\<exists>out. main_with iou env [gtFolder, predFolder] = (out, 0) \<and>
     filter is_report out =
       (if loaded_metrics_with iou env gtFolder predFolder gtFiles = [] then []
        else [PrintReport (aggregateResults (loaded_metrics_with iou env gtFolder predFolder gtFiles))]) \<and>
     (\<forall>file \<in> set gtFiles. \<forall>content err.
        path_extname env file = ''.json'' \<and>
        readFile env (path_join env gtFolder file) = Inr content \<and>
        readFile env (path_join env predFolder file) = Inl err \<and>
        err_code err = Some ''ENOENT'' \<longrightarrow>
        ConsoleWarn (''Warning: Prediction file not found for '' @ file @ ''. Skipping.'')
          \<in> set out \<and>
        loaded_pair env gtFolder predFolder file = None) \<and>
     (\<forall>file \<in> set gtFiles. \<forall>err.
        path_extname env file = ''.json'' \<and>
        readFile env (path_join env gtFolder file) = Inl err \<and>
        err_code err \<noteq> Some ''ENOENT'' \<longrightarrow>
        ConsoleErrorWith (''Error processing file '' @ file @ '':'') (err_message err)
          \<in> set out \<and>
        loaded_pair env gtFolder predFolder file = None) \<and>
     (\<forall>file \<in> set gtFiles. \<forall>gtContent predContent.
        path_extname env file = ''.json'' \<and>
        readFile env (path_join env gtFolder file) = Inr gtContent \<and>
        readFile env (path_join env predFolder file) = Inr predContent \<and>
        ((\<exists>msg. JSON_parse env gtContent = Inl msg) \<or>
         (\<exists>msg. JSON_parse env predContent = Inl msg)) \<longrightarrow>
        (\<exists>msg. ConsoleErrorWith (''Error processing file '' @ file @ '':'') msg \<in> set out) \<and>
        loaded_pair env gtFolder predFolder file = None)"
proof -
  let ?skips = "concat (map (skip_output iou env gtFolder predFolder) gtFiles)"
  let ?ms = "loaded_metrics_with iou env gtFolder predFolder gtFiles"
  let ?out = "?skips @ [if ?ms = [] then ConsoleLog ''No matching file pairs found to evaluate.''
                        else PrintReport (aggregateResults ?ms)]"
  have run: "main_with iou env [gtFolder, predFolder] = (?out, 0)"
    by (rule main_run[OF assms, where iou = iou])
  have rep: "filter is_report ?out = (if ?ms = [] then [] else [PrintReport (aggregateResults ?ms)])"
    by (simp add: filter_is_report_skip)
  have warn: "ConsoleWarn (''Warning: Prediction file not found for '' @ fl @ ''. Skipping.'')
                \<in> set ?out \<and> loaded_pair env gtFolder predFolder fl = None"
    if "fl \<in> set gtFiles" "path_extname env fl = ''.json''"
       "readFile env (path_join env gtFolder fl) = Inr content"
       "readFile env (path_join env predFolder fl) = Inl err"
       "err_code err = Some ''ENOENT''" for fl content err
  proof -
    have e: "skip_output iou env gtFolder predFolder fl =
               [ConsoleWarn (''Warning: Prediction file not found for '' @ fl @ ''. Skipping.'')]"
      using that(2-5) by (rule skip_output_missing(1))
    have n: "loaded_pair env gtFolder predFolder fl = None"
      using that(2-5) by (rule skip_output_missing(2))
    have "ConsoleWarn (''Warning: Prediction file not found for '' @ fl @ ''. Skipping.'')
            \<in> set (skip_output iou env gtFolder predFolder fl)"
      unfolding e by (rule list.set_intros(1))
    with that(1) n show ?thesis by (blast intro: in_skip_output)
  qed
  have denied: "ConsoleErrorWith (''Error processing file '' @ fl @ '':'') (err_message err)
                \<in> set ?out \<and> loaded_pair env gtFolder predFolder fl = None"
    if "fl \<in> set gtFiles" "path_extname env fl = ''.json''"
       "readFile env (path_join env gtFolder fl) = Inl err"
       "err_code err \<noteq> Some ''ENOENT''" for fl err
  proof -
    have e: "skip_output iou env gtFolder predFolder fl =
               [ConsoleErrorWith (''Error processing file '' @ fl @ '':'') (err_message err)]"
      using that(2-4) by (rule skip_output_unreadable(1))
    have n: "loaded_pair env gtFolder predFolder fl = None"
      using that(2-4) by (rule skip_output_unreadable(2))
    have "ConsoleErrorWith (''Error processing file '' @ fl @ '':'') (err_message err)
            \<in> set (skip_output iou env gtFolder predFolder fl)"
      unfolding e by (rule list.set_intros(1))
    with that(1) n show ?thesis by (blast intro: in_skip_output)
  qed
  have bad: "(\<exists>msg. ConsoleErrorWith (''Error processing file '' @ fl @ '':'') msg \<in> set ?out)
               \<and> loaded_pair env gtFolder predFolder fl = None"
    if "fl \<in> set gtFiles" "path_extname env fl = ''.json''"
       "readFile env (path_join env gtFolder fl) = Inr gtContent"
       "readFile env (path_join env predFolder fl) = Inr predContent"
       "(\<exists>msg. JSON_parse env gtContent = Inl msg) \<or> (\<exists>msg. JSON_parse env predContent = Inl msg)"
    for fl gtContent predContent
  proof -
    from skip_output_malformed(1)[OF that(2-5)] obtain msg where
      e: "skip_output iou env gtFolder predFolder fl =
         [ConsoleErrorWith (''Error processing file '' @ fl @ '':'') msg]" by blast
    have n: "loaded_pair env gtFolder predFolder fl = None"
      using that(2-5) by (rule skip_output_malformed(2))
    have "ConsoleErrorWith (''Error processing file '' @ fl @ '':'') msg
                 \<in> set (skip_output iou env gtFolder predFolder fl)"
      unfolding e by (rule list.set_intros(1))
    with that(1) n show ?thesis by (blast intro: in_skip_output)
  qed
  show ?thesis
    apply (rule exI[of _ ?out])
    apply (intro conjI ballI allI impI)
    subgoal by (rule run)
    subgoal by (rule rep)
    subgoal using warn by blast
    subgoal using warn by blast
    subgoal using denied by blast
    subgoal using denied by blast
    subgoal using bad by blast
    subgoal using bad by blast
    done
qed

theorem pair_failures_contained_witness:
  "(\<exists>out. main ex_env [''gt'', ''pred''] = (out, 0) \<and>
     filter is_report out = [PrintReport (aggregateResults [evaluateSingleFile ex_gt ex_pred])] \<and>
     ConsoleWarn ''Warning: Prediction file not found for b.json. Skipping.'' \<in> set out \<and>
     (\<exists>msg. ConsoleErrorWith ''Error processing file c.json:'' msg \<in> set out)) \<and>
   (\<exists>out. main ex_env_denied [''gt'', ''pred''] = (out, 0) \<and>
      ConsoleErrorWith ''Error processing file x.json:'' ''permission denied'' \<in> set out)"
proof -
  let ?files = "[''a.json'', ''b.json'', ''c.json'', ''notes.txt'']"
  have rd: "readdir ex_env ''gt'' = Inr ?files" by (simp add: ex_env_def)
  from pair_failures_contained[OF rd, where iou = calculateIoU and predFolder = "''pred''"]
  obtain out where
    run: "main ex_env [''gt'', ''pred''] = (out, 0)" and
    rep: "filter is_report out =
       (if loaded_metrics ex_env ''gt'' ''pred'' ?files = [] then []
        else [PrintReport (aggregateResults (loaded_metrics ex_env ''gt'' ''pred'' ?files))])" and
    w: "\<forall>file \<in> set ?files. \<forall>content err.
        path_extname ex_env file = ''.json'' \<and>
        readFile ex_env (path_join ex_env ''gt'' file) = Inr content \<and>
        readFile ex_env (path_join ex_env ''pred'' file) = Inl err \<and>
        err_code err = Some ''ENOENT'' \<longrightarrow>
        ConsoleWarn (''Warning: Prediction file not found for '' @ file @ ''. Skipping.'')
          \<in> set out \<and>
        loaded_pair ex_env ''gt'' ''pred'' file = None" and
    b: "\<forall>file \<in> set ?files. \<forall>gtContent predContent.
        path_extname ex_env file = ''.json'' \<and>
        readFile ex_env (path_join ex_env ''gt'' file) = Inr gtContent \<and>
        readFile ex_env (path_join ex_env ''pred'' file) = Inr predContent \<and>
        ((\<exists>msg. JSON_parse ex_env gtContent = Inl msg) \<or>
         (\<exists>msg. JSON_parse ex_env predContent = Inl msg)) \<longrightarrow>
        (\<exists>msg. ConsoleErrorWith (''Error processing file '' @ file @ '':'') msg \<in> set out) \<and>
        loaded_pair ex_env ''gt'' ''pred'' file = None"
    unfolding main_def loaded_metrics_def by blast
  have rd': "readdir ex_env_denied ''gt'' = Inr [''x.json'']" by (simp add: ex_env_denied_def)
  from pair_failures_contained[OF rd', where iou = calculateIoU and predFolder = "''pred''"]
  obtain out' where
    run': "main ex_env_denied [''gt'', ''pred''] = (out', 0)" and
    d: "\<forall>file \<in> set [''x.json'']. \<forall>err.
        path_extname ex_env_denied file = ''.json'' \<and>
        readFile ex_env_denied (path_join ex_env_denied ''gt'' file) = Inl err \<and>
        err_code err \<noteq> Some ''ENOENT'' \<longrightarrow>
        ConsoleErrorWith (''Error processing file '' @ file @ '':'') (err_message err)
          \<in> set out' \<and>
        loaded_pair ex_env_denied ''gt'' ''pred'' file = None"
    unfolding main_def loaded_metrics_def by blast
  have hd: "path_extname ex_env_denied ''x.json'' = ''.json'' \<and>
        readFile ex_env_denied (path_join ex_env_denied ''gt'' ''x.json'') =
          Inl (JsError (Some ''EACCES'') ''permission denied'') \<and>
        err_code (JsError (Some ''EACCES'') ''permission denied'') \<noteq> Some ''ENOENT''"
    by (simp add: ex_env_denied_def)
  have "''x.json'' \<in> set [''x.json'']" by simp
  with d hd have "ConsoleErrorWith (''Error processing file '' @ ''x.json'' @ '':'')
                    (err_message (JsError (Some ''EACCES'') ''permission denied'')) \<in> set out'"
    by blast
  then have 4: "ConsoleErrorWith ''Error processing file x.json:'' ''permission denied'' \<in> set out'"
    by simp
  have hb: "path_extname ex_env ''b.json'' = ''.json'' \<and>
        readFile ex_env (path_join ex_env ''gt'' ''b.json'') = Inr ''B'' \<and>
        readFile ex_env (path_join ex_env ''pred'' ''b.json'') =
          Inl (JsError (Some ''ENOENT'') ''no such file or directory'') \<and>
        err_code (JsError (Some ''ENOENT'') ''no such file or directory'') = Some ''ENOENT''"
    by (simp add: ex_env_def)
  have hc: "path_extname ex_env ''c.json'' = ''.json'' \<and>
        readFile ex_env (path_join ex_env ''gt'' ''c.json'') = Inr ''C'' \<and>
        readFile ex_env (path_join ex_env ''pred'' ''c.json'') = Inr ''{'' \<and>
        ((\<exists>msg. JSON_parse ex_env ''C'' = Inl msg) \<or> (\<exists>msg. JSON_parse ex_env ''{'' = Inl msg))"
    by (simp add: ex_env_def)
  have "''b.json'' \<in> set ?files" by simp
  with w hb have 1: "ConsoleWarn (''Warning: Prediction file not found for '' @ ''b.json'' @ ''. Skipping.'') \<in> set out"
    by blast
  have "''c.json'' \<in> set ?files" by simp
  with b hc have 2: "\<exists>msg. ConsoleErrorWith (''Error processing file '' @ ''c.json'' @ '':'') msg \<in> set out"
    by blast
  from rep have 3: "filter is_report out = [PrintReport (aggregateResults [evaluateSingleFile ex_gt ex_pred])]"
    by (simp add: ex_env_loaded)
  from run 1 2 3 have A: "\<exists>out. main ex_env [''gt'', ''pred''] = (out, 0) \<and>
     filter is_report out = [PrintReport (aggregateResults [evaluateSingleFile ex_gt ex_pred])] \<and>
     ConsoleWarn ''Warning: Prediction file not found for b.json. Skipping.'' \<in> set out \<and>
     (\<exists>msg. ConsoleErrorWith ''Error processing file c.json:'' msg \<in> set out)"
    by simp
  from run' 4 have B: "\<exists>out. main ex_env_denied [''gt'', ''pred''] = (out, 0) \<and>
      ConsoleErrorWith ''Error processing file x.json:'' ''permission denied'' \<in> set out"
    by simp
  from A B show ?thesis by (rule conjI)
qed

text \<open>
  A missing prediction alone does not give the warning: the script reads the ground truth
  first, and when that read fails with another error than \<open>ENOENT\<close> the file is skipped
  with the reported error instead.
\<close>

theorem missing_prediction_without_warning:
  "readdir ex_env_denied ''gt'' = Inr [''x.json''] \<and>
   readFile ex_env_denied (path_join ex_env_denied ''pred'' ''x.json'') =
     Inl (JsError (Some ''ENOENT'') ''no such file or directory'') \<and>
   main ex_env_denied [''gt'', ''pred''] =
     ([ConsoleErrorWith ''Error processing file x.json:'' ''permission denied'',
       ConsoleLog ''No matching file pairs found to evaluate.''], 0)"
  by (simp add: ex_env_denied_def main_def main_with_def file_step_def process_pair_def)

text \<open>
  C9: the driver exits with code \<open>1\<close> and the usage message when it is not given
  exactly two arguments, and with code \<open>1\<close> and no report when the ground-truth directory
  cannot be read; with no successfully loaded pair it reports that there is no data,
  prints no report and exits with code \<open>0\<close>; otherwise it prints the report last and
  exits with code \<open>0\<close>.
\<close>

theorem driver_exit_behaviour:
  "(length args \<noteq> 2 \<longrightarrow> main env args = ([ConsoleError
        ''Usage: node evaluate.mjs <ground_truth_folder> <predictions_folder>''], 1)) \<and>
   (\<forall>err. length args = 2 \<and> readdir env (args ! 0) = Inl err \<longrightarrow>
      snd (main env args) = 1 \<and> filter is_report (fst (main env args)) = []) \<and>
   (\<forall>files. length args = 2 \<and> readdir env (args ! 0) = Inr files \<and>
      loaded_metrics env (args ! 0) (args ! 1) files = [] \<longrightarrow>
      snd (main env args) = 0 \<and>
      last (fst (main env args)) = ConsoleLog ''No matching file pairs found to evaluate.'' \<and>
      filter is_report (fst (main env args)) = []) \<and>
   (\<forall>files. length args = 2 \<and> readdir env (args ! 0) = Inr files \<and>
      loaded_metrics env (args ! 0) (args ! 1) files \<noteq> [] \<longrightarrow>
      snd (main env args) = 0 \<and>
      last (fst (main env args)) =
        PrintReport (aggregateResults (loaded_metrics env (args ! 0) (args ! 1) files)))"
proof (intro conjI allI impI)
  assume "length args \<noteq> 2"
  then show "main env args = ([ConsoleError
        ''Usage: node evaluate.mjs <ground_truth_folder> <predictions_folder>''], 1)"
    by (simp add: main_def main_with_def)
next
  fix err assume a: "length args = 2 \<and> readdir env (args ! 0) = Inl err"
  then show "snd (main env args) = 1" by (simp add: main_def main_with_def)
  from a show "filter is_report (fst (main env args)) = []" by (simp add: main_def main_with_def)
next
  fix files
  assume a: "length args = 2 \<and> readdir env (args ! 0) = Inr files \<and>
      loaded_metrics env (args ! 0) (args ! 1) files = []"
  then have args: "args = [args ! 0, args ! 1]" by (intro args_two) blast
  from a have rd: "readdir env (args ! 0) = Inr files" by simp
  have run: "main env args =
     (concat (map (skip_output calculateIoU env (args ! 0) (args ! 1)) files) @
        [ConsoleLog ''No matching file pairs found to evaluate.''], 0)"
    using main_run_exact[OF rd, where p = "args ! 1"] a args by simp
  show "snd (main env args) = 0" by (simp add: run)
  show "last (fst (main env args)) = ConsoleLog ''No matching file pairs found to evaluate.''"
    by (simp add: run)
  show "filter is_report (fst (main env args)) = []"
    by (simp add: run filter_is_report_skip)
next
  fix files
  assume a: "length args = 2 \<and> readdir env (args ! 0) = Inr files \<and>
      loaded_metrics env (args ! 0) (args ! 1) files \<noteq> []"
  then have args: "args = [args ! 0, args ! 1]" by (intro args_two) blast
  from a have rd: "readdir env (args ! 0) = Inr files" by simp
  have run: "main env args =
     (concat (map (skip_output calculateIoU env (args ! 0) (args ! 1)) files) @
        [PrintReport (aggregateResults (loaded_metrics env (args ! 0) (args ! 1) files))], 0)"
    using main_run_exact[OF rd, where p = "args ! 1"] a args by simp
  show "snd (main env args) = 0" by (simp add: run)
  show "last (fst (main env args)) =
        PrintReport (aggregateResults (loaded_metrics env (args ! 0) (args ! 1) files))"
    by (simp add: run)
qed

theorem driver_exit_behaviour_witness:
  "main ex_env [''gt''] = ([ConsoleError
        ''Usage: node evaluate.mjs <ground_truth_folder> <predictions_folder>''], 1) \<and>
   snd (main ex_env [''missing'', ''pred'']) = 1 \<and>
   snd (main ex_env [''gt'', ''nowhere'']) = 0 \<and>
   last (fst (main ex_env [''gt'', ''nowhere''])) =
     ConsoleLog ''No matching file pairs found to evaluate.'' \<and>
   filter is_report (fst (main ex_env [''gt'', ''nowhere''])) = [] \<and>
   snd (main ex_env [''gt'', ''pred'']) = 0 \<and>
   last (fst (main ex_env [''gt'', ''pred''])) =
     PrintReport (aggregateResults [evaluateSingleFile ex_gt ex_pred])"
proof -
  let ?files = "[''a.json'', ''b.json'', ''c.json'', ''notes.txt'']"
  have 1: "main ex_env [''gt''] = ([ConsoleError
        ''Usage: node evaluate.mjs <ground_truth_folder> <predictions_folder>''], 1)"
    using driver_exit_behaviour[of "[''gt'']" ex_env] by simp
  have "length [''missing'', ''pred''] = 2 \<and>
        readdir ex_env ([''missing'', ''pred''] ! 0) =
          Inl (JsError (Some ''ENOENT'') ''no such file or directory'')"
    by (simp add: ex_env_def)
  with driver_exit_behaviour[of "[''missing'', ''pred'']" ex_env]
  have 2: "snd (main ex_env [''missing'', ''pred'']) = 1" by blast
  have "length [''gt'', ''nowhere''] = 2 \<and>
        readdir ex_env ([''gt'', ''nowhere''] ! 0) = Inr ?files \<and>
        loaded_metrics ex_env ([''gt'', ''nowhere''] ! 0) ([''gt'', ''nowhere''] ! 1) ?files = []"
    by (simp add: ex_env_def loaded_metrics_def loaded_metrics_with_def List.map_filter_def
                  loaded_pair_def load_doc_def)
  with driver_exit_behaviour[of "[''gt'', ''nowhere'']" ex_env]
  have 3: "snd (main ex_env [''gt'', ''nowhere'']) = 0 \<and>
      last (fst (main ex_env [''gt'', ''nowhere''])) =
        ConsoleLog ''No matching file pairs found to evaluate.'' \<and>
      filter is_report (fst (main ex_env [''gt'', ''nowhere''])) = []" by blast
  have l: "loaded_metrics ex_env ([''gt'', ''pred''] ! 0) ([''gt'', ''pred''] ! 1) ?files
             = [evaluateSingleFile ex_gt ex_pred]"
    by (simp add: ex_env_loaded)
  have "length [''gt'', ''pred''] = 2 \<and>
        readdir ex_env ([''gt'', ''pred''] ! 0) = Inr ?files \<and>
        loaded_metrics ex_env ([''gt'', ''pred''] ! 0) ([''gt'', ''pred''] ! 1) ?files \<noteq> []"
  proof (intro conjI)
    show "length [''gt'', ''pred''] = 2" by simp
    show "readdir ex_env ([''gt'', ''pred''] ! 0) = Inr ?files" by (simp add: ex_env_def)
    show "loaded_metrics ex_env ([''gt'', ''pred''] ! 0) ([''gt'', ''pred''] ! 1) ?files \<noteq> []"
      unfolding l by simp
  qed
  with driver_exit_behaviour[of "[''gt'', ''pred'']" ex_env]
  have "snd (main ex_env [''gt'', ''pred'']) = 0 \<and>
      last (fst (main ex_env [''gt'', ''pred''])) =
        PrintReport (aggregateResults
          (loaded_metrics ex_env ([''gt'', ''pred''] ! 0) ([''gt'', ''pred''] ! 1) ?files))"
    by blast
  then have 4: "snd (main ex_env [''gt'', ''pred'']) = 0 \<and>
      last (fst (main ex_env [''gt'', ''pred''])) =
        PrintReport (aggregateResults [evaluateSingleFile ex_gt ex_pred])"
    by (simp only: l)
  from 1 2 3 4 show ?thesis by simp
qed

text \<open>
  C10: two pairs of documents that agree on their labels of the four recognized
  tags, in order, have the same output of the single-item matcher: labels of any other tag
  may be added or removed on either side without changing any count or rate.
\<close>

theorem unrecognized_tags_ignored:
  assumes "filter (\<lambda>l. tag l \<in> set UI_TAGS) (labels gtData) =
           filter (\<lambda>l. tag l \<in> set UI_TAGS) (labels gtData')"
      and "filter (\<lambda>l. tag l \<in> set UI_TAGS) (labels predData) =
           filter (\<lambda>l. tag l \<in> set UI_TAGS) (labels predData')"
  shows "evaluateSingleFile gtData predData = evaluateSingleFile gtData' predData'"
  unfolding evaluateSingleFile_eq
  by (rule map_cong[OF refl]) (simp add: evaluate_tag_recognized[OF assms])

theorem unrecognized_tags_ignored_witness:
  "evaluateSingleFile ex_gt_extra ex_pred = evaluateSingleFile ex_gt ex_pred"
  by (rule unrecognized_tags_ignored)
     (simp_all add: ex_gt_extra_def ex_gt_def UI_TAGS_def)

end
